theory Spec2Isabelle
  imports Complex_Main "HOL-Library.AList" "HOL-Library.Multiset"
begin

section \<open>The grading-scale crawler: values, strings and patterns\<close>

text \<open>
  The program \<^verbatim>\<open>scripts/crawl_india_grading.py\<close> works on JSON-like Python values:
  the persisted catalog is whatever \<^verbatim>\<open>json.load\<close> returned, and every grading system is a
  \<^verbatim>\<open>Dict[str, Any]\<close> that the code inspects with \<^verbatim>\<open>.get\<close> and \<^verbatim>\<open>isinstance\<close>. The
  embedding keeps that dynamic typing: one datatype of values, dictionaries as
  association lists in insertion order.

  Conventions of the whole development:
  \<^item> Python \<^verbatim>\<open>None\<close> is \<open>JNull\<close>; \<^verbatim>\<open>d.get(k)\<close> of a missing key is \<open>JNull\<close> as well.
  \<^item> Python floats are modelled as exact rationals (\<open>JFloat\<close>): no rounding, no NaN,
    no infinity, and \<^verbatim>\<open>float(n)\<close> of an integer is exact.
  \<^item> Python strings are modelled as \<open>string\<close>; the character classes of \<^verbatim>\<open>re\<close> and
    of \<^verbatim>\<open>str.strip\<close>, \<^verbatim>\<open>str.lower\<close> are the ASCII ones.
\<close>

datatype json =
    JNull
  | JBool bool
  | JInt int
  | JFloat rat
  | JStr string
  | JList "json list"
  | JDict "(string \<times> json) list"

type_synonym pydict = "(string \<times> json) list"

text \<open>\<^verbatim>\<open>d.get(k)\<close> and \<^verbatim>\<open>d.get(k, default)\<close>.\<close>

definition dict_get :: "pydict \<Rightarrow> string \<Rightarrow> json" where
  "dict_get d k = (case map_of d k of None \<Rightarrow> JNull | Some v \<Rightarrow> v)"

definition dict_get_default :: "pydict \<Rightarrow> string \<Rightarrow> json \<Rightarrow> json" where
  "dict_get_default d k dflt = (case map_of d k of None \<Rightarrow> dflt | Some v \<Rightarrow> v)"

text \<open>
  \<^verbatim>\<open>isinstance(x, (int, float))\<close> with the number read as a rational. A Python
  \<^verbatim>\<open>bool\<close> is an \<^verbatim>\<open>int\<close>, so \<^verbatim>\<open>True\<close> and \<^verbatim>\<open>False\<close> pass the test as 1 and 0.
\<close>

fun as_number :: "json \<Rightarrow> rat option" where
  "as_number (JBool b) = Some (if b then 1 else 0)"
| "as_number (JInt i) = Some (of_int i)"
| "as_number (JFloat r) = Some r"
| "as_number _ = None"

text \<open>Python truthiness, as \<^verbatim>\<open>if not sid\<close> reads it.\<close>

fun truthy :: "json \<Rightarrow> bool" where
  "truthy JNull = False"
| "truthy (JBool b) = b"
| "truthy (JInt i) = (i \<noteq> 0)"
| "truthy (JFloat r) = (r \<noteq> 0)"
| "truthy (JStr s) = (s \<noteq> [])"
| "truthy (JList xs) = (xs \<noteq> [])"
| "truthy (JDict d) = (d \<noteq> [])"

subsection \<open>Characters and strings\<close>

definition digit_chars :: string where
  "digit_chars = ''0123456789''"

definition space_chars :: string where
  "space_chars = [CHR 0x09, CHR 0x0A, CHR 0x0B, CHR 0x0C, CHR 0x0D,
                  CHR 0x1C, CHR 0x1D, CHR 0x1E, CHR 0x1F, CHR 0x20]"

definition word_chars :: string where
  "word_chars = ''abcdefghijklmnopqrstuvwxyzABCDEFGHIJKLMNOPQRSTUVWXYZ0123456789_''"

definition is_digit :: "char \<Rightarrow> bool" where
  "is_digit c = (c \<in> set digit_chars)"

definition is_space :: "char \<Rightarrow> bool" where
  "is_space c = (c \<in> set space_chars)"

definition is_word :: "char \<Rightarrow> bool" where
  "is_word c = (c \<in> set word_chars)"

text \<open>\<^verbatim>\<open>s.strip()\<close>: whitespace removed at both ends.\<close>

definition strip :: "string \<Rightarrow> string" where
  "strip s = rev (dropWhile is_space (rev (dropWhile is_space s)))"

text \<open>\<^verbatim>\<open>s.lower()\<close>.\<close>

definition lower_char :: "char \<Rightarrow> char" where
  "lower_char c =
     (case map_of (zip ''ABCDEFGHIJKLMNOPQRSTUVWXYZ'' ''abcdefghijklmnopqrstuvwxyz'') c of
        None \<Rightarrow> c | Some l \<Rightarrow> l)"

definition lower :: "string \<Rightarrow> string" where
  "lower s = map lower_char s"

text \<open>\<^verbatim>\<open>sep.join(xs)\<close> and \<^verbatim>\<open>s.split(c)\<close> for a one-character separator.\<close>

fun join :: "string \<Rightarrow> string list \<Rightarrow> string" where
  "join sep [] = []"
| "join sep [x] = x"
| "join sep (x # y # ys) = x @ sep @ join sep (y # ys)"

fun split :: "char \<Rightarrow> string \<Rightarrow> string list" where
  "split c [] = [[]]"
| "split c (x # xs) =
     (if x = c then [] # split c xs
      else (x # hd (split c xs)) # tl (split c xs))"

text \<open>\<^verbatim>\<open>needle in haystack\<close> for strings.\<close>

fun contains :: "string \<Rightarrow> string \<Rightarrow> bool" where
  "contains needle [] = (needle = [])"
| "contains needle (c # cs) = (take (length needle) (c # cs) = needle \<or> contains needle cs)"

subsection \<open>Regular expressions\<close>

text \<open>
  The patterns of the source are kept as terms of a small pattern language and run by a
  backtracking matcher that lists, in the priority order of Python's \<^verbatim>\<open>re\<close>, every way
  a pattern can match at the current position. A matcher state is the rest of the subject
  together with a flag saying whether the character before it is a word character (what
  \<^verbatim>\<open>\b\<close> needs to know).
\<close>

datatype rx =
    Cls string          \<comment> \<open>one character out of the listed ones\<close>
  | NCls string         \<comment> \<open>one character not among the listed ones\<close>
  | Eps                 \<comment> \<open>the empty pattern\<close>
  | Cat rx rx           \<comment> \<open>concatenation\<close>
  | Alt rx rx           \<comment> \<open>alternation, left first\<close>
  | Star rx             \<comment> \<open>greedy repetition\<close>
  | Bnd                 \<comment> \<open>the word boundary\<close>

type_synonym rx_state = "bool \<times> string"

primrec star_ends :: "(rx_state \<Rightarrow> rx_state list) \<Rightarrow> nat \<Rightarrow> rx_state \<Rightarrow> rx_state list" where
  "star_ends f 0 st = [st]"
| "star_ends f (Suc n) st =
     concat (map (star_ends f n) (filter (\<lambda>st'. length (snd st') < length (snd st)) (f st)))
     @ [st]"

primrec ends :: "rx \<Rightarrow> rx_state \<Rightarrow> rx_state list" where
  "ends (Cls cs) st =
     (case snd st of [] \<Rightarrow> [] | c # r \<Rightarrow> if c \<in> set cs then [(is_word c, r)] else [])"
| "ends (NCls cs) st =
     (case snd st of [] \<Rightarrow> [] | c # r \<Rightarrow> if c \<notin> set cs then [(is_word c, r)] else [])"
| "ends Eps st = [st]"
| "ends (Cat a b) st = concat (map (ends b) (ends a st))"
| "ends (Alt a b) st = ends a st @ ends b st"
| "ends (Star a) st = star_ends (ends a) (length (snd st)) st"
| "ends Bnd st =
     (if fst st \<noteq> (case snd st of [] \<Rightarrow> False | c # r \<Rightarrow> is_word c) then [st] else [])"

fun Cats :: "rx list \<Rightarrow> rx" where
  "Cats [] = Eps"
| "Cats (r # rs) = Cat r (Cats rs)"

definition Str :: "string \<Rightarrow> rx" where
  "Str s = Cats (map (\<lambda>c. Cls [c]) s)"

definition Opt :: "rx \<Rightarrow> rx" where
  "Opt r = Alt r Eps"

definition Plus :: "rx \<Rightarrow> rx" where
  "Plus r = Cat r (Star r)"

fun Alts :: "rx list \<Rightarrow> rx" where
  "Alts [] = Cls []"
| "Alts [r] = r"
| "Alts (r # r' # rs) = Alt r (Alts (r' # rs))"

text \<open>\<^verbatim>\<open>re.fullmatch(p, s)\<close> as a truth value.\<close>

definition fullmatch :: "rx \<Rightarrow> string \<Rightarrow> bool" where
  "fullmatch p s = ([] \<in> snd ` set (ends p (False, s)))"

text \<open>
  \<^verbatim>\<open>re.search(p, s)\<close>: the leftmost position with a match, and there the match of
  highest priority; the result is the matched text.
\<close>

fun search_from :: "rx \<Rightarrow> bool \<Rightarrow> string \<Rightarrow> string option" where
  "search_from p w [] =
     (case ends p (w, []) of [] \<Rightarrow> None | e # _ \<Rightarrow> Some [])"
| "search_from p w (c # cs) =
     (case ends p (w, c # cs) of
        [] \<Rightarrow> search_from p (is_word c) cs
      | e # _ \<Rightarrow> Some (take (length (c # cs) - length (snd e)) (c # cs)))"

definition search :: "rx \<Rightarrow> string \<Rightarrow> string option" where
  "search p s = search_from p False s"

text \<open>\<^verbatim>\<open>re.match(p, s)\<close>: a match at the start only.\<close>

definition match_start :: "rx \<Rightarrow> string \<Rightarrow> string option" where
  "match_start p s =
     (case ends p (False, s) of [] \<Rightarrow> None | e # _ \<Rightarrow> Some (take (length s - length (snd e)) s))"

section \<open>The Validator\<close>

text \<open>
  \<^verbatim>\<open>looks_like_grade_label\<close>, the local function of \<^verbatim>\<open>is_valid_indian_system\<close>. Its two
  patterns are
  \<^verbatim>\<open>[OSAUBCDFEP]{1,2}[+-]?|[A-D][+-]?|HD|D|C|P|F|First|Pass|Fail\<close> and
  \<^verbatim>\<open>\d{1,3}(?:L)?\<close>.
\<close>

definition letter_label_rx :: rx where
  "letter_label_rx =
     Alts [Cats [Cls ''OSAUBCDFEP'', Opt (Cls ''OSAUBCDFEP''), Opt (Cls ''+-'')],
           Cats [Cls ''ABCD'', Opt (Cls ''+-'')],
           Str ''HD'', Str ''D'', Str ''C'', Str ''P'', Str ''F'',
           Str ''First'', Str ''Pass'', Str ''Fail'']"

text \<open>\<^verbatim>\<open>\d{1,3}\<close>: one digit, then greedily up to two more.\<close>

definition digits_1_3 :: rx where
  "digits_1_3 = Cat (Cls digit_chars) (Opt (Cat (Cls digit_chars) (Opt (Cls digit_chars))))"

definition numeric_label_rx :: rx where
  "numeric_label_rx = Cats [digits_1_3, Opt (Str ''L'')]"

definition known_labels :: "string set" where
  "known_labels = {''O'', ''A+'', ''A'', ''A-'', ''B+'', ''B'', ''B-'', ''C+'', ''C'', ''C-'',
                   ''D'', ''E'', ''P'', ''F'', ''HD''}"

definition looks_like_grade_label :: "string \<Rightarrow> bool" where
  "looks_like_grade_label label0 =
     (let label = strip label0 in
      if label = [] \<or> length label > 20 then False
      else if fullmatch letter_label_rx label then True
      else if fullmatch numeric_label_rx label then True
      else if label \<in> known_labels then True
      else False)"

definition allowed_scales :: "rat set" where
  "allowed_scales = {10, 9, 8, 7, 6, 5, 433 / 100, 4, 100}"

text \<open>
  The loop \<^verbatim>\<open>for row in grades\<close> of \<^verbatim>\<open>is_valid_indian_system\<close>, with the set
  \<^verbatim>\<open>seen_labels\<close> as its state; every \<^verbatim>\<open>return False\<close> is a branch. The tolerance
  \<^verbatim>\<open>1e-6\<close> is the rational \<open>1 / 1000000\<close>.
\<close>

fun check_rows :: "rat \<Rightarrow> string set \<Rightarrow> json list \<Rightarrow> bool" where
  "check_rows scale seen_labels [] = True"
| "check_rows scale seen_labels (row # rest) =
     (case row of
        JDict r \<Rightarrow>
          (case as_number (dict_get r ''points'') of
             None \<Rightarrow> False
           | Some points \<Rightarrow>
               if points < 0 \<or> points > scale + 1 / 1000000 then False
               else (case dict_get r ''grade'' of
                       JStr grade_label \<Rightarrow>
                         if \<not> looks_like_grade_label grade_label then False
                         else if grade_label \<in> seen_labels then False
                         else check_rows scale (insert grade_label seen_labels) rest
                     | _ \<Rightarrow> False))
      | _ \<Rightarrow> False)"

definition is_valid_indian_system :: "pydict \<Rightarrow> bool" where
  "is_valid_indian_system system =
     (case as_number (dict_get system ''scale'') of
        None \<Rightarrow> False
      | Some scale \<Rightarrow>
          if scale \<notin> allowed_scales then False
          else (case dict_get system ''grades'' of
                  JList grades \<Rightarrow>
                    if length grades < 3 then False else check_rows scale {} grades
                | _ \<Rightarrow> False))"

section \<open>The Merger\<close>

subsection \<open>Integers in version strings\<close>

text \<open>
  \<^verbatim>\<open>int(s)\<close> for a string: surrounding whitespace is dropped, one sign is allowed, and
  the digits may be grouped by single underscores. \<open>None\<close> stands for the
  \<^verbatim>\<open>ValueError\<close>. (The interpreter's limit on the number of digits is not modelled:
  integers are unbounded.)
\<close>

definition digit_val :: "char \<Rightarrow> int" where
  "digit_val c = int (length (takeWhile (\<lambda>d. d \<noteq> c) digit_chars))"

fun digits_value :: "int \<Rightarrow> string \<Rightarrow> int option" where
  "digits_value acc [] = Some acc"
| "digits_value acc (c # cs) =
     (if is_digit c then digits_value (10 * acc + digit_val c) cs
      else if c = CHR ''_'' then
        (case cs of
           [] \<Rightarrow> None
         | d # ds \<Rightarrow> if is_digit d then digits_value (10 * acc + digit_val d) ds else None)
      else None)"

definition parse_digits :: "string \<Rightarrow> int option" where
  "parse_digits s =
     (case s of
        [] \<Rightarrow> None
      | c # cs \<Rightarrow> if is_digit c then digits_value (digit_val c) cs else None)"

definition py_int :: "string \<Rightarrow> int option" where
  "py_int s =
     (case strip s of
        [] \<Rightarrow> None
      | c # cs \<Rightarrow>
          if c = CHR ''-'' then map_option uminus (parse_digits cs)
          else if c = CHR ''+'' then parse_digits cs
          else parse_digits (c # cs))"

text \<open>\<^verbatim>\<open>str(n)\<close> for an integer.\<close>

fun dec_digits :: "nat \<Rightarrow> string" where
  "dec_digits n =
     (if n < 10 then [digit_chars ! n]
      else dec_digits (n div 10) @ [digit_chars ! (n mod 10)])"

declare dec_digits.simps [simp del]

definition py_str :: "int \<Rightarrow> string" where
  "py_str i = (if i < 0 then CHR ''-'' # dec_digits (nat (- i)) else dec_digits (nat i))"

text \<open>
  The version bump of \<^verbatim>\<open>merge_into_existing\<close>: the \<^verbatim>\<open>try\<close> block with its
  \<^verbatim>\<open>except Exception\<close>, which leaves the version as it was. \<^verbatim>\<open>split\<close> never returns
  an empty list, so \<^verbatim>\<open>parts[-1]\<close> is its last element.
\<close>

definition bump_version :: "string \<Rightarrow> string" where
  "bump_version version =
     (let parts = split CHR ''.'' version in
      case py_int (last parts) of
        None \<Rightarrow> version
      | Some n \<Rightarrow> join ''.'' (butlast parts @ [py_str (n + 1)]))"

subsection \<open>Upsert by id\<close>

text \<open>
  The exceptions \<^verbatim>\<open>merge_into_existing\<close> can raise on a catalog that \<^verbatim>\<open>json.load\<close>
  accepted: \<^verbatim>\<open>AttributeError\<close> (\<^verbatim>\<open>.get\<close> on an entry that is no dictionary,
  \<^verbatim>\<open>.split\<close> on a version that is no string) and \<^verbatim>\<open>TypeError\<close> (a systems field
  that cannot be iterated, an id that cannot be hashed).
\<close>

datatype error = AttributeError | TypeError

text \<open>
  Keys of the dictionary \<^verbatim>\<open>by_id\<close>. Python compares keys with \<^verbatim>\<open>==\<close>, under which
  \<^verbatim>\<open>True\<close>, \<^verbatim>\<open>1\<close> and \<^verbatim>\<open>1.0\<close> are one key; lists and dictionaries cannot be keys.
\<close>

datatype pykey = KNone | KNum rat | KStr string

fun py_hash_key :: "json \<Rightarrow> error + pykey" where
  "py_hash_key JNull = Inr KNone"
| "py_hash_key (JBool b) = Inr (KNum (if b then 1 else 0))"
| "py_hash_key (JInt i) = Inr (KNum (of_int i))"
| "py_hash_key (JFloat r) = Inr (KNum r)"
| "py_hash_key (JStr s) = Inr (KStr s)"
| "py_hash_key (JList xs) = Inl TypeError"
| "py_hash_key (JDict d) = Inl TypeError"

text \<open>
  What \<^verbatim>\<open>for s in existing.get("systems", [])\<close> iterates over: the elements of a list,
  the characters of a string, the keys of a dictionary; anything else is not iterable.
\<close>

fun py_iter :: "json \<Rightarrow> error + json list" where
  "py_iter (JList xs) = Inr xs"
| "py_iter (JStr s) = Inr (map (\<lambda>c. JStr [c]) s)"
| "py_iter (JDict d) = Inr (map (\<lambda>kv. JStr (fst kv)) d)"
| "py_iter _ = Inl TypeError"

text \<open>The first loop: existing entries, Indian ones only if the Validator accepts them.\<close>

fun clean_existing :: "json list \<Rightarrow> error + pydict list" where
  "clean_existing [] = Inr []"
| "clean_existing (s # rest) =
     (case s of
        JDict d \<Rightarrow>
          (case clean_existing rest of
             Inl e \<Rightarrow> Inl e
           | Inr cleaned \<Rightarrow>
               if dict_get d ''country'' = JStr ''India'' \<and> \<not> is_valid_indian_system d
               then Inr cleaned
               else Inr (d # cleaned))
      | _ \<Rightarrow> Inl AttributeError)"

text \<open>
  The dictionary \<^verbatim>\<open>by_id\<close>, in insertion order: storing under a key that is present
  replaces the value where it stands, a new key goes to the end
  (\<^const>\<open>AList.update\<close>). The comprehension \<^verbatim>\<open>{s.get("id"): s for s in cleaned_existing}\<close>
  is a loop of such stores.
\<close>

type_synonym by_id = "(pykey \<times> pydict) list"

fun index_by_id :: "pydict list \<Rightarrow> by_id \<Rightarrow> error + by_id" where
  "index_by_id [] by_id = Inr by_id"
| "index_by_id (s # rest) by_id =
     (case py_hash_key (dict_get s ''id'') of
        Inl e \<Rightarrow> Inl e
      | Inr k \<Rightarrow> index_by_id rest (AList.update k s by_id))"

text \<open>The second loop, \<^verbatim>\<open>for s in new_systems\<close>, with its two \<^verbatim>\<open>continue\<close>s.\<close>

fun upsert_new :: "pydict list \<Rightarrow> by_id \<Rightarrow> error + by_id" where
  "upsert_new [] by_id = Inr by_id"
| "upsert_new (s # rest) by_id =
     (let sid = dict_get s ''id'' in
      if \<not> truthy sid then upsert_new rest by_id
      else if dict_get s ''country'' = JStr ''India'' \<and> \<not> is_valid_indian_system s
      then upsert_new rest by_id
      else (case py_hash_key sid of
              Inl e \<Rightarrow> Inl e
            | Inr k \<Rightarrow> upsert_new rest (AList.update k s by_id)))"

text \<open>The systems of the merged catalog: \<^verbatim>\<open>list(by_id.values())\<close> after both loops.\<close>

definition merged_systems :: "pydict \<Rightarrow> pydict list \<Rightarrow> error + pydict list" where
  "merged_systems existing new_systems =
     (case py_iter (dict_get_default existing ''systems'' (JList [])) of
        Inl e \<Rightarrow> Inl e
      | Inr items \<Rightarrow>
          (case clean_existing items of
             Inl e \<Rightarrow> Inl e
           | Inr cleaned_existing \<Rightarrow>
               (case index_by_id cleaned_existing [] of
                  Inl e \<Rightarrow> Inl e
                | Inr by_id \<Rightarrow>
                    (case upsert_new new_systems by_id of
                       Inl e \<Rightarrow> Inl e
                     | Inr by_id' \<Rightarrow> Inr (map snd by_id')))))"

text \<open>
  \<^verbatim>\<open>merge_into_existing\<close>. The date \<^verbatim>\<open>datetime.utcnow().date().isoformat()\<close> is the
  parameter \<open>today\<close>. The copy \<^verbatim>\<open>dict(existing)\<close> keeps the order of the keys, and each
  of the three stores replaces in place or appends.
\<close>

definition merge_into_existing :: "pydict \<Rightarrow> pydict list \<Rightarrow> string \<Rightarrow> error + pydict" where
  "merge_into_existing existing new_systems today =
     (case merged_systems existing new_systems of
        Inl e \<Rightarrow> Inl e
      | Inr systems \<Rightarrow>
          (case dict_get_default existing ''version'' (JStr ''1.0.0'') of
             JStr version \<Rightarrow>
               Inr (AList.update ''lastUpdated'' (JStr today)
                     (AList.update ''version'' (JStr (bump_version version))
                       (AList.update ''systems'' (JList (map JDict systems)) existing)))
           | _ \<Rightarrow> Inl AttributeError))"

section \<open>The Table Interpreter\<close>

text \<open>
  The program reads pages through BeautifulSoup. A page is modelled by what the queries of
  the source return on it: for every table of \<^verbatim>\<open>soup.select("table")\<close> the texts of its
  \<^verbatim>\<open>th\<close> cells, the texts of the \<^verbatim>\<open>td\<close> cells of each of its \<^verbatim>\<open>tr\<close> rows and the
  texts of all its tags (\<^verbatim>\<open>table.find_all(True)\<close>); and for every anchor of
  \<^verbatim>\<open>soup.select("a[href]")\<close> its \<^verbatim>\<open>href\<close> and its text.
\<close>

record table =
  th_texts :: "string list"
  tr_cells :: "string list list"
  tag_texts :: "string list"

record page =
  tables :: "table list"
  anchors :: "(string \<times> string) list"

text \<open>The patterns of \<^verbatim>\<open>guess_scale_from_tokens\<close>, in the order of the source:
  \<^verbatim>\<open>\b(outstanding|o\s*grade)\b\<close>, \<^verbatim>\<open>\bsgpa|cgpa\b\<close>,
  \<^verbatim>\<open>10\s*point|10-point|\b/10\b\<close>, \<^verbatim>\<open>7\s*point|7-point|\b/7\b\<close> and
  \<^verbatim>\<open>\b/4\b|4\.0\s*scale\<close>.\<close>

definition outstanding_rx :: rx where
  "outstanding_rx =
     Cats [Bnd,
           Alt (Str ''outstanding'') (Cats [Str ''o'', Star (Cls space_chars), Str ''grade'']),
           Bnd]"

definition gpa_rx :: rx where
  "gpa_rx = Alt (Cats [Bnd, Str ''sgpa'']) (Cats [Str ''cgpa'', Bnd])"

definition ten_point_rx :: rx where
  "ten_point_rx =
     Alts [Cats [Str ''10'', Star (Cls space_chars), Str ''point''],
           Str ''10-point'',
           Cats [Bnd, Str ''/10'', Bnd]]"

definition seven_point_rx :: rx where
  "seven_point_rx =
     Alts [Cats [Str ''7'', Star (Cls space_chars), Str ''point''],
           Str ''7-point'',
           Cats [Bnd, Str ''/7'', Bnd]]"

definition four_point_rx :: rx where
  "four_point_rx =
     Alt (Cats [Bnd, Str ''/4'', Bnd])
         (Cats [Str ''4.0'', Star (Cls space_chars), Str ''scale''])"

definition guess_scale_from_tokens :: "string list \<Rightarrow> rat option" where
  "guess_scale_from_tokens tokens =
     (let joined = lower (join '' '' tokens) in
      if search outstanding_rx joined \<noteq> None \<and> contains ''10'' joined then Some 10
      else if search gpa_rx joined \<noteq> None \<and> search ten_point_rx joined \<noteq> None then Some 10
      else if search seven_point_rx joined \<noteq> None then Some 7
      else if search four_point_rx joined \<noteq> None then Some 4
      else None)"

text \<open>
  \<^verbatim>\<open>float(m.group(0))\<close> for a match of \<^verbatim>\<open>\d+(?:\.\d+)?\<close>: the decimal value of the
  digits, exactly. On such a text \<^verbatim>\<open>float\<close> does not raise, so the \<^verbatim>\<open>except\<close> branch of
  the source is never taken.
\<close>

definition number_rx :: rx where
  "number_rx = Cat (Plus (Cls digit_chars)) (Opt (Cat (Cls ''.'') (Plus (Cls digit_chars))))"

definition digits_nat :: "string \<Rightarrow> nat" where
  "digits_nat ds = foldl (\<lambda>acc c. 10 * acc + nat (digit_val c)) 0 ds"

definition decimal_value :: "string \<Rightarrow> rat" where
  "decimal_value m =
     (let whole = takeWhile (\<lambda>c. c \<noteq> CHR ''.'') m;
          frac = drop (Suc (length whole)) m
      in of_nat (digits_nat whole) + of_nat (digits_nat frac) / 10 ^ length frac)"

text \<open>The first cell with a numeric token gives the points (the first inner loop).\<close>

fun find_points :: "string list \<Rightarrow> rat option" where
  "find_points [] = None"
| "find_points (cell # cells) =
     (case search number_rx cell of
        Some m \<Rightarrow> Some (decimal_value m)
      | None \<Rightarrow> find_points cells)"

text \<open>
  \<^verbatim>\<open>re.sub\<close> for a pattern that is one or more characters of a class: every maximal run
  of such characters is replaced. The percentage pattern is
  \<^verbatim>\<open>\b\d{1,3}\s*-\s*\d{1,3}\b\<close>, and the cell that matches it is kept with its whitespace
  removed (\<^verbatim>\<open>re.sub(r"\s+", "", cell)\<close>).
\<close>

function sub_runs :: "(char \<Rightarrow> bool) \<Rightarrow> string \<Rightarrow> string \<Rightarrow> string" where
  "sub_runs in_class repl [] = []"
| "sub_runs in_class repl (c # cs) =
     (if in_class c then repl @ sub_runs in_class repl (dropWhile in_class cs)
      else c # sub_runs in_class repl cs)"
  by pat_completeness auto
termination
  by (relation "measure (\<lambda>(in_class, repl, s). length s)")
     (auto simp: length_dropWhile_le less_Suc_eq_le)

definition percentage_rx :: rx where
  "percentage_rx =
     Cats [Bnd, digits_1_3, Star (Cls space_chars), Cls ''-'', Star (Cls space_chars),
           digits_1_3, Bnd]"

fun find_percentage :: "string list \<Rightarrow> string option" where
  "find_percentage [] = None"
| "find_percentage (cell # cells) =
     (if search percentage_rx cell \<noteq> None then Some (sub_runs is_space [] cell)
      else find_percentage cells)"

text \<open>
  The loop \<^verbatim>\<open>for r in rows\<close>: one grade row per table row that has a label and points.
  Every row here has at least two cells, so \<^verbatim>\<open>r[0]\<close> is \<open>hd r\<close> and \<^verbatim>\<open>r[1:]\<close> is \<open>tl r\<close>.
\<close>

fun extract_grades :: "string list list \<Rightarrow> json list" where
  "extract_grades [] = []"
| "extract_grades (r # rows) =
     (let grade_label = hd r in
      case find_points (tl r) of
        None \<Rightarrow> extract_grades rows
      | Some points \<Rightarrow>
          if grade_label = [] then extract_grades rows
          else JDict ([(''grade'', JStr grade_label), (''points'', JFloat points)] @
                      (case find_percentage (tl r) of
                         None \<Rightarrow> []
                       | Some percentage \<Rightarrow>
                           if percentage \<noteq> [] then [(''percentage'', JStr percentage)] else []))
               # extract_grades rows)"

definition header_keywords :: "string list" where
  "header_keywords = [''grade'', ''letter'', ''points'', ''credit'', ''percentage'', ''marks'']"

definition is_candidate :: "table \<Rightarrow> bool" where
  "is_candidate t =
     (let header_text = join '' '' (th_texts t) in
      header_text \<noteq> [] \<and> list_ex (\<lambda>k. contains k (lower header_text)) header_keywords)"

text \<open>The points of the extracted rows that are numbers, and their maximum
  (\<^verbatim>\<open>max(..., default=None)\<close>).\<close>

definition grade_points :: "json list \<Rightarrow> rat list" where
  "grade_points grades =
     List.map_filter (\<lambda>g. case g of JDict d \<Rightarrow> as_number (dict_get d ''points'') | _ \<Rightarrow> None)
       grades"

fun max_default :: "rat list \<Rightarrow> rat option" where
  "max_default [] = None"
| "max_default (x # xs) = (case max_default xs of None \<Rightarrow> Some x | Some m \<Rightarrow> Some (max x m))"

text \<open>
  The loop \<^verbatim>\<open>for table in candidate_tables\<close>: each \<^verbatim>\<open>continue\<close> goes on to the next
  table, the first table that passes every test is the result. In
  \<^verbatim>\<open>any(g.get("points", 0) > 10 for g in grades)\<close> every row has its points.
\<close>

fun parse_tables :: "table list \<Rightarrow> (rat \<times> json list) option" where
  "parse_tables [] = None"
| "parse_tables (t # ts) =
     (let rows = filter (\<lambda>cells. \<not> length cells < 2) (tr_cells t) in
      if length rows < 2 then parse_tables ts
      else
        let grades = extract_grades rows in
        if grades = [] then parse_tables ts
        else
          (case (case guess_scale_from_tokens (tag_texts t) of
                   Some g \<Rightarrow> Some g
                 | None \<Rightarrow> max_default (grade_points grades)) of
             None \<Rightarrow> parse_tables ts
           | Some scale_guess \<Rightarrow>
               if list_ex (\<lambda>p. p > 10) (grade_points grades) \<and> scale_guess \<le> 10
               then parse_tables ts
               else Some (scale_guess, grades)))"

definition try_parse_grading_table :: "page \<Rightarrow> (rat \<times> json list) option" where
  "try_parse_grading_table soup = parse_tables (filter is_candidate (tables soup))"

section \<open>The Site Crawler\<close>

definition key_patterns :: "string list" where
  "key_patterns = [''academic'', ''regulation'', ''ordinance'', ''examination'', ''grading'',
                   ''evaluation'', ''credit'', ''curriculum'']"

text \<open>\<^verbatim>\<open>re.match(r"https?://[^/]+", homepage_url)\<close>, with the homepage itself as fallback.\<close>

definition base_rx :: rx where
  "base_rx = Cats [Str ''http'', Opt (Cls ''s''), Str ''://'', Plus (NCls ''/'')]"

definition base_url_of :: "string \<Rightarrow> string" where
  "base_url_of homepage_url =
     (case match_start base_rx homepage_url of Some b \<Rightarrow> b | None \<Rightarrow> homepage_url)"

definition startswith :: "string \<Rightarrow> string \<Rightarrow> bool" where
  "startswith s prefix = (take (length prefix) s = prefix)"

text \<open>The loop \<^verbatim>\<open>for a in soup.select("a[href]")\<close>: the URLs appended to the queue.\<close>

fun likely_links :: "string \<Rightarrow> (string \<times> string) list \<Rightarrow> string list" where
  "likely_links base_url [] = []"
| "likely_links base_url ((href, text) # rest) =
     (if href = [] then likely_links base_url rest
      else if \<not> startswith href ''/'' \<and> \<not> startswith href ''http://''
              \<and> \<not> startswith href ''https://''
      then likely_links base_url rest
      else
        let next_url = (if startswith href ''/'' then base_url @ href else href) in
        if list_ex (\<lambda>k. contains k (lower text) \<or> contains k (lower href)) key_patterns
        then next_url # likely_links base_url rest
        else likely_links base_url rest)"

definition max_pages :: nat where
  "max_pages = 5"

text \<open>
  The \<^verbatim>\<open>while\<close> loop of \<^verbatim>\<open>find_and_parse_grading\<close>. The network is the parameter
  \<open>fetch\<close>: the parsed page behind a URL, or \<open>None\<close> when \<^verbatim>\<open>fetch\<close> returns nothing
  or an empty text (\<^verbatim>\<open>if not html: continue\<close>). The set \<^verbatim>\<open>visited\<close> is kept as the
  list of its elements in the order they were added; a URL is added only when it is not
  in it, so the length of the list is the size of the set. \<open>fetched\<close> logs the calls of
  \<^verbatim>\<open>fetch\<close>. The loop returns \<^verbatim>\<open>results\<close> and the log.
\<close>

function explore_loop ::
  "(string \<Rightarrow> page option) \<Rightarrow> string \<Rightarrow> string list \<Rightarrow> string list \<Rightarrow> string list
     \<Rightarrow> (rat \<times> json list) option \<times> string list" where
  "explore_loop fetch base_url to_visit visited fetched =
     (case to_visit of
        [] \<Rightarrow> (None, fetched)
      | url # rest \<Rightarrow>
          if \<not> length visited < max_pages then (None, fetched)
          else if url \<in> set visited then explore_loop fetch base_url rest visited fetched
          else
            (case fetch url of
               None \<Rightarrow> explore_loop fetch base_url rest (visited @ [url]) (fetched @ [url])
             | Some soup \<Rightarrow>
                 (case try_parse_grading_table soup of
                    Some parsed \<Rightarrow> (Some parsed, fetched @ [url])
                  | None \<Rightarrow>
                      explore_loop fetch base_url (rest @ likely_links base_url (anchors soup))
                        (visited @ [url]) (fetched @ [url]))))"
  by pat_completeness auto
termination
  by (relation "measures [\<lambda>(fetch, base_url, to_visit, visited, fetched). max_pages - length visited,
                          \<lambda>(fetch, base_url, to_visit, visited, fetched). length to_visit]")
     auto

declare explore_loop.simps [simp del]

definition find_and_parse_grading ::
  "(string \<Rightarrow> page option) \<Rightarrow> string \<Rightarrow> (rat \<times> json list) option \<times> string list" where
  "find_and_parse_grading fetch homepage_url =
     explore_loop fetch (base_url_of homepage_url) [homepage_url] [] []"

section \<open>Normalised systems\<close>

text \<open>\<^verbatim>\<open>normalize_system\<close>: the id is the slug
  \<^verbatim>\<open>re.sub(r"[^a-z0-9]+", "_", name.lower()).strip("_")\<close>.\<close>

definition slug_chars :: string where
  "slug_chars = ''abcdefghijklmnopqrstuvwxyz0123456789''"

definition strip_chars :: "string \<Rightarrow> string \<Rightarrow> string" where
  "strip_chars cs s =
     rev (dropWhile (\<lambda>c. c \<in> set cs) (rev (dropWhile (\<lambda>c. c \<in> set cs) s)))"

definition normalize_system ::
  "string \<Rightarrow> string \<Rightarrow> string \<Rightarrow> rat \<Rightarrow> json list \<Rightarrow> pydict" where
  "normalize_system name country region scale grades =
     (let system_id = strip_chars ''_'' (sub_runs (\<lambda>c. c \<notin> set slug_chars) ''_'' (lower name)) in
      [(''id'', JStr system_id),
       (''name'', JStr name),
       (''country'', JStr country),
       (''region'', JStr region),
       (''description'', JStr (name @ '' grading system'')),
       (''scale'', JFloat scale),
       (''grades'', JList grades)])"



section \<open>Baseline mode\<close>

text \<open>
  \<^verbatim>\<open>country_baselines\<close>: the fixed table of national scales, entry by entry as in the
  source. Characters outside ASCII stand as their UTF-8 bytes.
\<close>

definition baseline_china_100 :: pydict where
  "baseline_china_100 =
     [(''id'', JStr ''china_100''),
      (''name'', JStr ''China 100-Point Scale''),
      (''country'', JStr ''China''),
      (''region'', JStr ''East Asia''),
      (''description'', JStr (''Chinese 0'' @ [CHR 0xE2, CHR 0x80, CHR 0x93] @ ''100 scale'')),
      (''scale'', JFloat 100),
      (''grades'', JList
        [JDict [(''grade'', JStr ''Excellent''), (''points'', JFloat 95), (''percentage'', JStr ''95-100'')],
         JDict [(''grade'', JStr ''Very Good''), (''points'', JFloat 85), (''percentage'', JStr ''85-94'')],
         JDict [(''grade'', JStr ''Good''), (''points'', JFloat 75), (''percentage'', JStr ''75-84'')],
         JDict [(''grade'', JStr ''Satisfactory''), (''points'', JFloat 65), (''percentage'', JStr ''65-74'')],
         JDict [(''grade'', JStr ''Pass''), (''points'', JFloat 60), (''percentage'', JStr ''60-64'')],
         JDict [(''grade'', JStr ''Fail''), (''points'', JFloat 0), (''percentage'', JStr ''0-59'')]])]"

definition baseline_russia_5 :: pydict where
  "baseline_russia_5 =
     [(''id'', JStr ''russia_5''),
      (''name'', JStr ''Russia 5-Point Scale''),
      (''country'', JStr ''Russia''),
      (''region'', JStr ''Europe''),
      (''description'', JStr ''Russian 5-point scale (5=Excellent, 2=Unsatisfactory)''),
      (''scale'', JFloat 5),
      (''grades'', JList
        [JDict [(''grade'', JStr ''5''), (''points'', JFloat 5), (''percentage'', JStr ''85-100''), (''description'', JStr ''Excellent'')],
         JDict [(''grade'', JStr ''4''), (''points'', JFloat 4), (''percentage'', JStr ''70-84''), (''description'', JStr ''Good'')],
         JDict [(''grade'', JStr ''3''), (''points'', JFloat 3), (''percentage'', JStr ''60-69''), (''description'', JStr ''Satisfactory'')],
         JDict [(''grade'', JStr ''2''), (''points'', JFloat 0), (''percentage'', JStr ''0-59''), (''description'', JStr ''Unsatisfactory'')]])]"

definition baseline_portugal_20 :: pydict where
  "baseline_portugal_20 =
     [(''id'', JStr ''portugal_20''),
      (''name'', JStr ''Portugal 20-Point Scale''),
      (''country'', JStr ''Portugal''),
      (''region'', JStr ''Europe''),
      (''description'', JStr (''Portuguese 0'' @ [CHR 0xE2, CHR 0x80, CHR 0x93] @ ''20 scale'')),
      (''scale'', JFloat 20),
      (''grades'', JList
        [JDict [(''grade'', JStr ''20''), (''points'', JFloat 20), (''percentage'', JStr ''95-100'')],
         JDict [(''grade'', JStr ''18-19''), (''points'', JFloat 19), (''percentage'', JStr ''90-94'')],
         JDict [(''grade'', JStr ''16-17''), (''points'', JFloat 17), (''percentage'', JStr ''80-89'')],
         JDict [(''grade'', JStr ''14-15''), (''points'', JFloat 15), (''percentage'', JStr ''70-79'')],
         JDict [(''grade'', JStr ''10-13''), (''points'', JFloat 12), (''percentage'', JStr ''50-69'')],
         JDict [(''grade'', JStr ''0-9''), (''points'', JFloat 0), (''percentage'', JStr ''0-49'')]])]"

definition baseline_austria_5 :: pydict where
  "baseline_austria_5 =
     [(''id'', JStr ''austria_5''),
      (''name'', JStr ''Austria 5-Point Scale''),
      (''country'', JStr ''Austria''),
      (''region'', JStr ''Europe''),
      (''description'', JStr (''Austrian 1'' @ [CHR 0xE2, CHR 0x80, CHR 0x93] @ ''5 scale (1=Sehr gut, 5=Nicht gen'' @ [CHR 0xC3, CHR 0xBC] @ ''gend)'')),
      (''scale'', JFloat 5),
      (''grades'', JList
        [JDict [(''grade'', JStr ''1''), (''points'', JFloat 1), (''percentage'', JStr ''90-100''), (''description'', JStr ''Sehr gut'')],
         JDict [(''grade'', JStr ''2''), (''points'', JFloat 2), (''percentage'', JStr ''80-89''), (''description'', JStr ''Gut'')],
         JDict [(''grade'', JStr ''3''), (''points'', JFloat 3), (''percentage'', JStr ''65-79''), (''description'', JStr ''Befriedigend'')],
         JDict [(''grade'', JStr ''4''), (''points'', JFloat 4), (''percentage'', JStr ''50-64''), (''description'', JStr (''Gen'' @ [CHR 0xC3, CHR 0xBC] @ ''gend''))],
         JDict [(''grade'', JStr ''5''), (''points'', JFloat 5), (''percentage'', JStr ''0-49''), (''description'', JStr (''Nicht gen'' @ [CHR 0xC3, CHR 0xBC] @ ''gend''))]])]"

definition baseline_czech_1_4 :: pydict where
  "baseline_czech_1_4 =
     [(''id'', JStr ''czech_1_4''),
      (''name'', JStr (''Czech Republic 1'' @ [CHR 0xE2, CHR 0x80, CHR 0x93] @ ''4 Scale'')),
      (''country'', JStr ''Czech Republic''),
      (''region'', JStr ''Europe''),
      (''description'', JStr (''Czech 1'' @ [CHR 0xE2, CHR 0x80, CHR 0x93] @ ''4 scale (1=best, 4=fail)'')),
      (''scale'', JFloat 4),
      (''grades'', JList
        [JDict [(''grade'', JStr ''1''), (''points'', JFloat 1), (''percentage'', JStr ''90-100''), (''description'', JStr (''V'' @ [CHR 0xC3, CHR 0xBD] @ ''born'' @ [CHR 0xC4, CHR 0x9B]))],
         JDict [(''grade'', JStr ''2''), (''points'', JFloat 2), (''percentage'', JStr ''75-89''), (''description'', JStr (''Velmi dob'' @ [CHR 0xC5, CHR 0x99] @ ''e''))],
         JDict [(''grade'', JStr ''3''), (''points'', JFloat 3), (''percentage'', JStr ''60-74''), (''description'', JStr (''Dob'' @ [CHR 0xC5, CHR 0x99] @ ''e''))],
         JDict [(''grade'', JStr ''4''), (''points'', JFloat 4), (''percentage'', JStr ''0-59''), (''description'', JStr (''Nedostate'' @ [CHR 0xC4, CHR 0x8D] @ ''n'' @ [CHR 0xC4, CHR 0x9B]))]])]"

definition baseline_poland_2_5 :: pydict where
  "baseline_poland_2_5 =
     [(''id'', JStr ''poland_2_5''),
      (''name'', JStr (''Poland 2'' @ [CHR 0xE2, CHR 0x80, CHR 0x93] @ ''5 Scale'')),
      (''country'', JStr ''Poland''),
      (''region'', JStr ''Europe''),
      (''description'', JStr (''Polish 2'' @ [CHR 0xE2, CHR 0x80, CHR 0x93] @ ''5 scale (5=very good, 2=fail)'')),
      (''scale'', JFloat 5),
      (''grades'', JList
        [JDict [(''grade'', JStr ''5''), (''points'', JFloat 5), (''percentage'', JStr ''90-100''), (''description'', JStr ''Bardzo dobry'')],
         JDict [(''grade'', JStr ''4''), (''points'', JFloat 4), (''percentage'', JStr ''75-89''), (''description'', JStr ''Dobry'')],
         JDict [(''grade'', JStr ''3''), (''points'', JFloat 3), (''percentage'', JStr ''60-74''), (''description'', JStr ''Dostateczny'')],
         JDict [(''grade'', JStr ''2''), (''points'', JFloat 0), (''percentage'', JStr ''0-59''), (''description'', JStr ''Niedostateczny'')]])]"

definition baseline_hungary_5 :: pydict where
  "baseline_hungary_5 =
     [(''id'', JStr ''hungary_5''),
      (''name'', JStr ''Hungary 5-Point Scale''),
      (''country'', JStr ''Hungary''),
      (''region'', JStr ''Europe''),
      (''description'', JStr (''Hungarian 1'' @ [CHR 0xE2, CHR 0x80, CHR 0x93] @ ''5 scale (5=Jeles, 1=El'' @ [CHR 0xC3, CHR 0xA9] @ ''gtelen)'')),
      (''scale'', JFloat 5),
      (''grades'', JList
        [JDict [(''grade'', JStr ''5''), (''points'', JFloat 5), (''percentage'', JStr ''90-100''), (''description'', JStr ''Jeles'')],
         JDict [(''grade'', JStr ''4''), (''points'', JFloat 4), (''percentage'', JStr ''80-89''), (''description'', JStr (''J'' @ [CHR 0xC3, CHR 0xB3]))],
         JDict [(''grade'', JStr ''3''), (''points'', JFloat 3), (''percentage'', JStr ''65-79''), (''description'', JStr (''K'' @ [CHR 0xC3, CHR 0xB6] @ ''zepes''))],
         JDict [(''grade'', JStr ''2''), (''points'', JFloat 2), (''percentage'', JStr ''50-64''), (''description'', JStr (''El'' @ [CHR 0xC3, CHR 0xA9] @ ''gs'' @ [CHR 0xC3, CHR 0xA9] @ ''ges''))],
         JDict [(''grade'', JStr ''1''), (''points'', JFloat 0), (''percentage'', JStr ''0-49''), (''description'', JStr (''El'' @ [CHR 0xC3, CHR 0xA9] @ ''gtelen''))]])]"

definition baseline_romania_10 :: pydict where
  "baseline_romania_10 =
     [(''id'', JStr ''romania_10''),
      (''name'', JStr ''Romania 10-Point Scale''),
      (''country'', JStr ''Romania''),
      (''region'', JStr ''Europe''),
      (''description'', JStr (''Romanian 1'' @ [CHR 0xE2, CHR 0x80, CHR 0x93] @ ''10 scale'')),
      (''scale'', JFloat 10),
      (''grades'', JList
        [JDict [(''grade'', JStr ''10''), (''points'', JFloat 10), (''percentage'', JStr ''95-100'')],
         JDict [(''grade'', JStr ''9''), (''points'', JFloat 9), (''percentage'', JStr ''85-94'')],
         JDict [(''grade'', JStr ''8''), (''points'', JFloat 8), (''percentage'', JStr ''75-84'')],
         JDict [(''grade'', JStr ''7''), (''points'', JFloat 7), (''percentage'', JStr ''65-74'')],
         JDict [(''grade'', JStr ''6''), (''points'', JFloat 6), (''percentage'', JStr ''55-64'')],
         JDict [(''grade'', JStr ''5''), (''points'', JFloat 5), (''percentage'', JStr ''50-54'')],
         JDict [(''grade'', JStr ''0-4''), (''points'', JFloat 0), (''percentage'', JStr ''0-49'')]])]"

definition baseline_greece_10 :: pydict where
  "baseline_greece_10 =
     [(''id'', JStr ''greece_10''),
      (''name'', JStr ''Greece 10-Point Scale''),
      (''country'', JStr ''Greece''),
      (''region'', JStr ''Europe''),
      (''description'', JStr (''Greek 0'' @ [CHR 0xE2, CHR 0x80, CHR 0x93] @ ''10 scale'')),
      (''scale'', JFloat 10),
      (''grades'', JList
        [JDict [(''grade'', JStr ''9-10''), (''points'', JFloat (19 / 2)), (''percentage'', JStr ''90-100''), (''description'', JStr [CHR 0xCE, CHR 0x86, CHR 0xCF, CHR 0x81, CHR 0xCE, CHR 0xB9, CHR 0xCF, CHR 0x83, CHR 0xCF, CHR 0x84, CHR 0xCE, CHR 0xB1])],
         JDict [(''grade'', JStr ''7-8.9''), (''points'', JFloat 8), (''percentage'', JStr ''70-89''), (''description'', JStr ([CHR 0xCE, CHR 0x9B, CHR 0xCE, CHR 0xAF, CHR 0xCE, CHR 0xB1, CHR 0xCE, CHR 0xBD] @ '' '' @ [CHR 0xCE, CHR 0x9A, CHR 0xCE, CHR 0xB1, CHR 0xCE, CHR 0xBB, CHR 0xCF, CHR 0x8E, CHR 0xCF, CHR 0x82]))],
         JDict [(''grade'', JStr ''5-6.9''), (''points'', JFloat 6), (''percentage'', JStr ''50-69''), (''description'', JStr [CHR 0xCE, CHR 0x9A, CHR 0xCE, CHR 0xB1, CHR 0xCE, CHR 0xBB, CHR 0xCF, CHR 0x8E, CHR 0xCF, CHR 0x82])],
         JDict [(''grade'', JStr ''0-4.9''), (''points'', JFloat 0), (''percentage'', JStr ''0-49''), (''description'', JStr [CHR 0xCE, CHR 0x91, CHR 0xCE, CHR 0xBD, CHR 0xCE, CHR 0xB5, CHR 0xCF, CHR 0x80, CHR 0xCE, CHR 0xB9, CHR 0xCF, CHR 0x84, CHR 0xCF, CHR 0x85, CHR 0xCF, CHR 0x87, CHR 0xCF, CHR 0x8E, CHR 0xCF, CHR 0x82])]])]"

definition baseline_turkey_100 :: pydict where
  "baseline_turkey_100 =
     [(''id'', JStr ''turkey_100''),
      (''name'', JStr ''Turkey 100-Point Scale''),
      (''country'', JStr ''Turkey''),
      (''region'', JStr ''Europe''),
      (''description'', JStr (''Turkish 0'' @ [CHR 0xE2, CHR 0x80, CHR 0x93] @ ''100 scale'')),
      (''scale'', JFloat 100),
      (''grades'', JList
        [JDict [(''grade'', JStr ''90-100''), (''points'', JFloat 95), (''percentage'', JStr ''90-100''), (''description'', JStr ''AA'')],
         JDict [(''grade'', JStr ''80-89''), (''points'', JFloat 85), (''percentage'', JStr ''80-89''), (''description'', JStr ''BA/BB'')],
         JDict [(''grade'', JStr ''70-79''), (''points'', JFloat 75), (''percentage'', JStr ''70-79''), (''description'', JStr ''CB/CC'')],
         JDict [(''grade'', JStr ''60-69''), (''points'', JFloat 65), (''percentage'', JStr ''60-69''), (''description'', JStr ''DC/DD'')],
         JDict [(''grade'', JStr ''50-59''), (''points'', JFloat 55), (''percentage'', JStr ''50-59''), (''description'', JStr ''FD'')],
         JDict [(''grade'', JStr ''0-49''), (''points'', JFloat 0), (''percentage'', JStr ''0-49''), (''description'', JStr ''FF'')]])]"

definition baseline_argentina_10 :: pydict where
  "baseline_argentina_10 =
     [(''id'', JStr ''argentina_10''),
      (''name'', JStr ''Argentina 10-Point Scale''),
      (''country'', JStr ''Argentina''),
      (''region'', JStr ''South America''),
      (''description'', JStr (''Argentine 0'' @ [CHR 0xE2, CHR 0x80, CHR 0x93] @ ''10 scale'')),
      (''scale'', JFloat 10),
      (''grades'', JList
        [JDict [(''grade'', JStr ''10''), (''points'', JFloat 10), (''percentage'', JStr ''95-100'')],
         JDict [(''grade'', JStr ''9''), (''points'', JFloat 9), (''percentage'', JStr ''90-94'')],
         JDict [(''grade'', JStr ''8''), (''points'', JFloat 8), (''percentage'', JStr ''80-89'')],
         JDict [(''grade'', JStr ''7''), (''points'', JFloat 7), (''percentage'', JStr ''70-79'')],
         JDict [(''grade'', JStr ''6''), (''points'', JFloat 6), (''percentage'', JStr ''60-69'')],
         JDict [(''grade'', JStr ''0-5''), (''points'', JFloat 0), (''percentage'', JStr ''0-59'')]])]"

definition baseline_chile_7 :: pydict where
  "baseline_chile_7 =
     [(''id'', JStr ''chile_7''),
      (''name'', JStr ''Chile 7-Point Scale''),
      (''country'', JStr ''Chile''),
      (''region'', JStr ''South America''),
      (''description'', JStr (''Chilean 1.0'' @ [CHR 0xE2, CHR 0x80, CHR 0x93] @ ''7.0 scale'')),
      (''scale'', JFloat 7),
      (''grades'', JList
        [JDict [(''grade'', JStr ''7.0''), (''points'', JFloat 7), (''percentage'', JStr ''95-100''), (''description'', JStr ''Sobresaliente'')],
         JDict [(''grade'', JStr ''6.0''), (''points'', JFloat 6), (''percentage'', JStr ''85-94''), (''description'', JStr ''Muy bueno'')],
         JDict [(''grade'', JStr ''5.0''), (''points'', JFloat 5), (''percentage'', JStr ''75-84''), (''description'', JStr ''Bueno'')],
         JDict [(''grade'', JStr ''4.0''), (''points'', JFloat 4), (''percentage'', JStr ''60-74''), (''description'', JStr ''Suficiente'')],
         JDict [(''grade'', JStr ''1.0-3.9''), (''points'', JFloat 0), (''percentage'', JStr ''0-59''), (''description'', JStr ''Insuficiente'')]])]"

definition baseline_colombia_5 :: pydict where
  "baseline_colombia_5 =
     [(''id'', JStr ''colombia_5''),
      (''name'', JStr ''Colombia 5-Point Scale''),
      (''country'', JStr ''Colombia''),
      (''region'', JStr ''South America''),
      (''description'', JStr (''Colombian 0'' @ [CHR 0xE2, CHR 0x80, CHR 0x93] @ ''5 scale'')),
      (''scale'', JFloat 5),
      (''grades'', JList
        [JDict [(''grade'', JStr ''5.0''), (''points'', JFloat 5), (''percentage'', JStr ''90-100'')],
         JDict [(''grade'', JStr ''4.0''), (''points'', JFloat 4), (''percentage'', JStr ''80-89'')],
         JDict [(''grade'', JStr ''3.0''), (''points'', JFloat 3), (''percentage'', JStr ''70-79'')],
         JDict [(''grade'', JStr ''2.0''), (''points'', JFloat 2), (''percentage'', JStr ''60-69'')],
         JDict [(''grade'', JStr ''0-1.9''), (''points'', JFloat 0), (''percentage'', JStr ''0-59'')]])]"

definition baseline_peru_20 :: pydict where
  "baseline_peru_20 =
     [(''id'', JStr ''peru_20''),
      (''name'', JStr ''Peru 20-Point Scale''),
      (''country'', JStr ''Peru''),
      (''region'', JStr ''South America''),
      (''description'', JStr (''Peruvian 0'' @ [CHR 0xE2, CHR 0x80, CHR 0x93] @ ''20 scale'')),
      (''scale'', JFloat 20),
      (''grades'', JList
        [JDict [(''grade'', JStr ''18-20''), (''points'', JFloat 19), (''percentage'', JStr ''90-100'')],
         JDict [(''grade'', JStr ''14-17''), (''points'', JFloat 15), (''percentage'', JStr ''70-89'')],
         JDict [(''grade'', JStr ''11-13''), (''points'', JFloat 12), (''percentage'', JStr ''55-69'')],
         JDict [(''grade'', JStr ''0-10''), (''points'', JFloat 0), (''percentage'', JStr ''0-54'')]])]"

definition baseline_philippines_5 :: pydict where
  "baseline_philippines_5 =
     [(''id'', JStr ''philippines_5''),
      (''name'', JStr (''Philippines 1.0'' @ [CHR 0xE2, CHR 0x80, CHR 0x93] @ ''5.0 Scale'')),
      (''country'', JStr ''Philippines''),
      (''region'', JStr ''Southeast Asia''),
      (''description'', JStr ''Philippine 1.0 (best) to 5.0 (fail)''),
      (''scale'', JFloat 5),
      (''grades'', JList
        [JDict [(''grade'', JStr ''1.0''), (''points'', JFloat 1), (''percentage'', JStr ''96-100''), (''description'', JStr ''Excellent'')],
         JDict [(''grade'', JStr ''1.5''), (''points'', JFloat (3 / 2)), (''percentage'', JStr ''90-95'')],
         JDict [(''grade'', JStr ''2.0''), (''points'', JFloat 2), (''percentage'', JStr ''84-89'')],
         JDict [(''grade'', JStr ''2.5''), (''points'', JFloat (5 / 2)), (''percentage'', JStr ''78-83'')],
         JDict [(''grade'', JStr ''3.0''), (''points'', JFloat 3), (''percentage'', JStr ''75-77''), (''description'', JStr ''Pass'')],
         JDict [(''grade'', JStr ''5.0''), (''points'', JFloat 5), (''percentage'', JStr ''0-74''), (''description'', JStr ''Fail'')]])]"

definition baseline_malaysia_4_0 :: pydict where
  "baseline_malaysia_4_0 =
     [(''id'', JStr ''malaysia_4_0''),
      (''name'', JStr ''Malaysia 4.0 Scale''),
      (''country'', JStr ''Malaysia''),
      (''region'', JStr ''Southeast Asia''),
      (''description'', JStr ''Malaysian 4.0 GPA scale''),
      (''scale'', JFloat 4),
      (''grades'', JList
        [JDict [(''grade'', JStr ''A''), (''points'', JFloat 4), (''percentage'', JStr ''80-100'')],
         JDict [(''grade'', JStr ''A-''), (''points'', JFloat (37 / 10)), (''percentage'', JStr ''75-79'')],
         JDict [(''grade'', JStr ''B+''), (''points'', JFloat (33 / 10)), (''percentage'', JStr ''70-74'')],
         JDict [(''grade'', JStr ''B''), (''points'', JFloat 3), (''percentage'', JStr ''65-69'')],
         JDict [(''grade'', JStr ''B-''), (''points'', JFloat (27 / 10)), (''percentage'', JStr ''60-64'')],
         JDict [(''grade'', JStr ''C+''), (''points'', JFloat (23 / 10)), (''percentage'', JStr ''55-59'')],
         JDict [(''grade'', JStr ''C''), (''points'', JFloat 2), (''percentage'', JStr ''50-54'')],
         JDict [(''grade'', JStr ''F''), (''points'', JFloat 0), (''percentage'', JStr ''0-49'')]])]"

definition baseline_indonesia_4_0 :: pydict where
  "baseline_indonesia_4_0 =
     [(''id'', JStr ''indonesia_4_0''),
      (''name'', JStr ''Indonesia 4.0 Scale''),
      (''country'', JStr ''Indonesia''),
      (''region'', JStr ''Southeast Asia''),
      (''description'', JStr ''Indonesian 4.0 GPA scale''),
      (''scale'', JFloat 4),
      (''grades'', JList
        [JDict [(''grade'', JStr ''A''), (''points'', JFloat 4), (''percentage'', JStr ''85-100'')],
         JDict [(''grade'', JStr ''A-''), (''points'', JFloat (37 / 10)), (''percentage'', JStr ''80-84'')],
         JDict [(''grade'', JStr ''B+''), (''points'', JFloat (33 / 10)), (''percentage'', JStr ''75-79'')],
         JDict [(''grade'', JStr ''B''), (''points'', JFloat 3), (''percentage'', JStr ''70-74'')],
         JDict [(''grade'', JStr ''C+''), (''points'', JFloat (23 / 10)), (''percentage'', JStr ''65-69'')],
         JDict [(''grade'', JStr ''C''), (''points'', JFloat 2), (''percentage'', JStr ''60-64'')],
         JDict [(''grade'', JStr ''D''), (''points'', JFloat 1), (''percentage'', JStr ''50-59'')],
         JDict [(''grade'', JStr ''E''), (''points'', JFloat 0), (''percentage'', JStr ''0-49'')]])]"

definition baseline_singapore_5_0 :: pydict where
  "baseline_singapore_5_0 =
     [(''id'', JStr ''singapore_5_0''),
      (''name'', JStr ''Singapore 5.0 Scale''),
      (''country'', JStr ''Singapore''),
      (''region'', JStr ''Southeast Asia''),
      (''description'', JStr ''Singaporean 5.0 GPA scale variant''),
      (''scale'', JFloat 5),
      (''grades'', JList
        [JDict [(''grade'', JStr ''A+''), (''points'', JFloat 5)],
         JDict [(''grade'', JStr ''A''), (''points'', JFloat 5)],
         JDict [(''grade'', JStr ''A-''), (''points'', JFloat (9 / 2))],
         JDict [(''grade'', JStr ''B+''), (''points'', JFloat 4)],
         JDict [(''grade'', JStr ''B''), (''points'', JFloat (7 / 2))],
         JDict [(''grade'', JStr ''B-''), (''points'', JFloat 3)],
         JDict [(''grade'', JStr ''C+''), (''points'', JFloat (5 / 2))],
         JDict [(''grade'', JStr ''C''), (''points'', JFloat 2)],
         JDict [(''grade'', JStr ''D''), (''points'', JFloat 1)],
         JDict [(''grade'', JStr ''F''), (''points'', JFloat 0)]])]"

definition baseline_saudi_arabia_5_0 :: pydict where
  "baseline_saudi_arabia_5_0 =
     [(''id'', JStr ''saudi_arabia_5_0''),
      (''name'', JStr ''Saudi Arabia 5.0 Scale''),
      (''country'', JStr ''Saudi Arabia''),
      (''region'', JStr ''Middle East''),
      (''description'', JStr ''Saudi 5.0 GPA scale''),
      (''scale'', JFloat 5),
      (''grades'', JList
        [JDict [(''grade'', JStr ''A+''), (''points'', JFloat 5)],
         JDict [(''grade'', JStr ''A''), (''points'', JFloat (9 / 2))],
         JDict [(''grade'', JStr ''B+''), (''points'', JFloat 4)],
         JDict [(''grade'', JStr ''B''), (''points'', JFloat (7 / 2))],
         JDict [(''grade'', JStr ''C+''), (''points'', JFloat 3)],
         JDict [(''grade'', JStr ''C''), (''points'', JFloat (5 / 2))],
         JDict [(''grade'', JStr ''D+''), (''points'', JFloat 2)],
         JDict [(''grade'', JStr ''D''), (''points'', JFloat 1)],
         JDict [(''grade'', JStr ''F''), (''points'', JFloat 0)]])]"

definition baseline_uae_4_0 :: pydict where
  "baseline_uae_4_0 =
     [(''id'', JStr ''uae_4_0''),
      (''name'', JStr ''UAE 4.0 Scale''),
      (''country'', JStr ''United Arab Emirates''),
      (''region'', JStr ''Middle East''),
      (''description'', JStr ''UAE 4.0 GPA scale''),
      (''scale'', JFloat 4),
      (''grades'', JList
        [JDict [(''grade'', JStr ''A''), (''points'', JFloat 4)],
         JDict [(''grade'', JStr ''A-''), (''points'', JFloat (37 / 10))],
         JDict [(''grade'', JStr ''B+''), (''points'', JFloat (33 / 10))],
         JDict [(''grade'', JStr ''B''), (''points'', JFloat 3)],
         JDict [(''grade'', JStr ''C+''), (''points'', JFloat (23 / 10))],
         JDict [(''grade'', JStr ''C''), (''points'', JFloat 2)],
         JDict [(''grade'', JStr ''D''), (''points'', JFloat 1)],
         JDict [(''grade'', JStr ''F''), (''points'', JFloat 0)]])]"

definition baseline_iran_20 :: pydict where
  "baseline_iran_20 =
     [(''id'', JStr ''iran_20''),
      (''name'', JStr ''Iran 20-Point Scale''),
      (''country'', JStr ''Iran''),
      (''region'', JStr ''Middle East''),
      (''description'', JStr (''Iranian 0'' @ [CHR 0xE2, CHR 0x80, CHR 0x93] @ ''20 scale'')),
      (''scale'', JFloat 20),
      (''grades'', JList
        [JDict [(''grade'', JStr ''18-20''), (''points'', JFloat 19), (''percentage'', JStr ''90-100'')],
         JDict [(''grade'', JStr ''15-17''), (''points'', JFloat 16), (''percentage'', JStr ''75-89'')],
         JDict [(''grade'', JStr ''10-14''), (''points'', JFloat 12), (''percentage'', JStr ''50-74'')],
         JDict [(''grade'', JStr ''0-9''), (''points'', JFloat 0), (''percentage'', JStr ''0-49'')]])]"

definition baseline_pakistan_4_0 :: pydict where
  "baseline_pakistan_4_0 =
     [(''id'', JStr ''pakistan_4_0''),
      (''name'', JStr ''Pakistan 4.0 Scale''),
      (''country'', JStr ''Pakistan''),
      (''region'', JStr ''South Asia''),
      (''description'', JStr ''Pakistani 4.0 GPA scale''),
      (''scale'', JFloat 4),
      (''grades'', JList
        [JDict [(''grade'', JStr ''A''), (''points'', JFloat 4)],
         JDict [(''grade'', JStr ''B''), (''points'', JFloat 3)],
         JDict [(''grade'', JStr ''C''), (''points'', JFloat 2)],
         JDict [(''grade'', JStr ''D''), (''points'', JFloat 1)],
         JDict [(''grade'', JStr ''F''), (''points'', JFloat 0)]])]"

definition baseline_nigeria_5_0 :: pydict where
  "baseline_nigeria_5_0 =
     [(''id'', JStr ''nigeria_5_0''),
      (''name'', JStr ''Nigeria 5.0 Scale''),
      (''country'', JStr ''Nigeria''),
      (''region'', JStr ''Africa''),
      (''description'', JStr ''Nigerian 5.0 GPA scale''),
      (''scale'', JFloat 5),
      (''grades'', JList
        [JDict [(''grade'', JStr ''A''), (''points'', JFloat 5)],
         JDict [(''grade'', JStr ''B''), (''points'', JFloat 4)],
         JDict [(''grade'', JStr ''C''), (''points'', JFloat 3)],
         JDict [(''grade'', JStr ''D''), (''points'', JFloat 2)],
         JDict [(''grade'', JStr ''E''), (''points'', JFloat 1)],
         JDict [(''grade'', JStr ''F''), (''points'', JFloat 0)]])]"

definition baseline_kenya_100 :: pydict where
  "baseline_kenya_100 =
     [(''id'', JStr ''kenya_100''),
      (''name'', JStr ''Kenya 100-Point Scale''),
      (''country'', JStr ''Kenya''),
      (''region'', JStr ''Africa''),
      (''description'', JStr (''Kenyan 0'' @ [CHR 0xE2, CHR 0x80, CHR 0x93] @ ''100 with letter categories'')),
      (''scale'', JFloat 100),
      (''grades'', JList
        [JDict [(''grade'', JStr ''A''), (''points'', JFloat 90), (''percentage'', JStr ''80-100'')],
         JDict [(''grade'', JStr ''B''), (''points'', JFloat 70), (''percentage'', JStr ''65-79'')],
         JDict [(''grade'', JStr ''C''), (''points'', JFloat 55), (''percentage'', JStr ''50-64'')],
         JDict [(''grade'', JStr ''D''), (''points'', JFloat 40), (''percentage'', JStr ''40-49'')],
         JDict [(''grade'', JStr ''E''), (''points'', JFloat 0), (''percentage'', JStr ''0-39'')]])]"

definition country_baselines :: "pydict list" where
  "country_baselines =
     [baseline_china_100,
      baseline_russia_5,
      baseline_portugal_20,
      baseline_austria_5,
      baseline_czech_1_4,
      baseline_poland_2_5,
      baseline_hungary_5,
      baseline_romania_10,
      baseline_greece_10,
      baseline_turkey_100,
      baseline_argentina_10,
      baseline_chile_7,
      baseline_colombia_5,
      baseline_peru_20,
      baseline_philippines_5,
      baseline_malaysia_4_0,
      baseline_indonesia_4_0,
      baseline_singapore_5_0,
      baseline_saudi_arabia_5_0,
      baseline_uae_4_0,
      baseline_iran_20,
      baseline_pakistan_4_0,
      baseline_nigeria_5_0,
      baseline_kenya_100]"

section \<open>Notions used in the properties\<close>



text \<open>The key under which the Merger files an entry, and the two tests of its loops.\<close>

definition id_key :: "pydict \<Rightarrow> error + pykey" where
  "id_key d = py_hash_key (dict_get d ''id'')"

definition admissible :: "pydict \<Rightarrow> bool" where
  "admissible d = (dict_get d ''country'' = JStr ''India'' \<longrightarrow> is_valid_indian_system d)"

definition accepted :: "pydict \<Rightarrow> bool" where
  "accepted s = (truthy (dict_get s ''id'') \<and> admissible s)"

text \<open>The invariant of \<^verbatim>\<open>by_id\<close>: keys are distinct, every entry is filed under the key
  of its own id, and every Indian entry has passed the Validator.\<close>

definition index_ok :: "by_id \<Rightarrow> bool" where
  "index_ok b = (distinct (map fst b) \<and>
                 (\<forall>kd \<in> set b. id_key (snd kd) = Inr (fst kd) \<and> admissible (snd kd)))"

text \<open>\<^verbatim>\<open>by_id\<close> before the loop over the new systems.\<close>

definition base_index :: "pydict \<Rightarrow> error + by_id" where
  "base_index existing =
     (case py_iter (dict_get_default existing ''systems'' (JList [])) of
        Inl e \<Rightarrow> Inl e
      | Inr items \<Rightarrow>
          (case clean_existing items of
             Inl e \<Rightarrow> Inl e
           | Inr cleaned_existing \<Rightarrow> index_by_id cleaned_existing []))"

definition systems_of :: "pydict \<Rightarrow> json list" where
  "systems_of catalog = (case dict_get catalog ''systems'' of JList xs \<Rightarrow> xs | _ \<Rightarrow> [])"

text \<open>The catalog \<^verbatim>\<open>merge_into_existing\<close> returns, given the merged systems and the
  new version.\<close>

definition stamped :: "pydict \<Rightarrow> pydict list \<Rightarrow> string \<Rightarrow> string \<Rightarrow> pydict" where
  "stamped existing systems version today =
     AList.update ''lastUpdated'' (JStr today)
       (AList.update ''version'' (JStr version)
         (AList.update ''systems'' (JList (map JDict systems)) existing))"

text \<open>One step of the loop over the new systems when the id can be hashed; merging one
  system and then another, each with its own run date; and equality of two catalogs up to
  the order of their systems.\<close>

definition put :: "pydict \<Rightarrow> by_id \<Rightarrow> by_id" where
  "put s b = (if accepted s then (case id_key s of Inr k \<Rightarrow> AList.update k s b | Inl e \<Rightarrow> b) else b)"

definition merge_then :: "pydict \<Rightarrow> pydict \<Rightarrow> pydict \<Rightarrow> string \<Rightarrow> string \<Rightarrow> error + pydict" where
  "merge_then existing a b today1 today2 =
     (case merge_into_existing existing [a] today1 of
        Inl e \<Rightarrow> Inl e
      | Inr merged \<Rightarrow> merge_into_existing merged [b] today2)"

definition same_up_to_order :: "pydict \<Rightarrow> pydict \<Rightarrow> bool" where
  "same_up_to_order m1 m2 =
     (map fst m1 = map fst m2 \<and>
      AList.delete ''systems'' m1 = AList.delete ''systems'' m2 \<and>
      mset (systems_of m1) = mset (systems_of m2))"


text \<open>What the Table Interpreter finds behind a URL, and the result of the first URL of a
  list behind which it finds something.\<close>

definition parse_of :: "(string \<Rightarrow> page option) \<Rightarrow> string \<Rightarrow> (rat \<times> json list) option" where
  "parse_of fetch url = (case fetch url of None \<Rightarrow> None | Some soup \<Rightarrow> try_parse_grading_table soup)"

definition first_match :: "(string \<Rightarrow> page option) \<Rightarrow> string list \<Rightarrow> (rat \<times> json list) option" where
  "first_match fetch urls =
     (case find (\<lambda>u. parse_of fetch u \<noteq> None) urls of None \<Rightarrow> None | Some u \<Rightarrow> parse_of fetch u)"

subsection \<open>Concrete inputs\<close>

definition grade_row :: "string \<Rightarrow> rat \<Rightarrow> json" where
  "grade_row g p = JDict [(''grade'', JStr g), (''points'', JFloat p)]"






text \<open>The system of the first end-to-end scenario of the specification.\<close>

definition anna_rows :: "json list" where
  "anna_rows = [grade_row ''O'' 10, grade_row ''A+'' 9, grade_row ''A'' 8, grade_row ''B'' 7]"

definition anna_university :: pydict where
  "anna_university = normalize_system ''Anna University'' ''India'' ''South Asia'' 10 anna_rows"

definition catalog_103 :: pydict where
  "catalog_103 = [(''version'', JStr ''1.0.3''), (''systems'', JList [])]"

definition anna_without_id :: pydict where
  "anna_without_id = AList.delete ''id'' anna_university"

definition entry_x1 :: pydict where
  "entry_x1 = [(''id'', JStr ''x''), (''name'', JStr ''first'')]"

definition entry_x2 :: pydict where
  "entry_x2 = [(''id'', JStr ''x''), (''name'', JStr ''second'')]"

definition dup_catalog :: pydict where
  "dup_catalog = [(''version'', JStr ''2.7''), (''systems'', JList [JDict entry_x1, JDict entry_x2])]"

definition dup_merged :: pydict where
  "dup_merged =
     [(''version'', JStr ''2.8''),
      (''systems'', JList [JDict entry_x2, JDict anna_university]),
      (''lastUpdated'', JStr ''2026-11-04'')]"

definition system_p :: pydict where
  "system_p = [(''id'', JStr ''p''), (''country'', JStr ''Peru'')]"

definition system_q :: pydict where
  "system_q = [(''id'', JStr ''q''), (''country'', JStr ''Qatar'')]"

definition anna_older :: pydict where
  "anna_older =
     normalize_system ''Anna University'' ''India'' ''South Asia'' 10
       [grade_row ''O'' 10, grade_row ''A'' 9, grade_row ''B'' 8]"

definition anna_merged :: pydict where
  "anna_merged =
     [(''version'', JStr ''1.0.5''),
      (''systems'', JList [JDict anna_university]),
      (''lastUpdated'', JStr ''2026-11-04'')]"

text \<open>A system of another country with a non-empty string as its id, and the catalog
  after merging the Portuguese baseline.\<close>

definition foreign_with_id :: "pydict \<Rightarrow> bool" where
  "foreign_with_id s =
     (dict_get s ''country'' \<noteq> JStr ''India'' \<and>
      (case dict_get s ''id'' of JStr sid \<Rightarrow> sid \<noteq> [] | _ \<Rightarrow> False))"

definition portugal_merged :: pydict where
  "portugal_merged =
     [(''version'', JStr ''1.0.4''),
      (''systems'', JList [JDict baseline_portugal_20]),
      (''lastUpdated'', JStr ''2026-11-04'')]"




text \<open>A site whose every page links to one more page, and the pages the crawl visits on it;
  a table on a scale of ten points, and a site that has it one link away from the homepage.\<close>

definition chain_site :: "string \<Rightarrow> page option" where
  "chain_site url = Some \<lparr>tables = [], anchors = [(url @ ''/academic'', ''next'')]\<rparr>"

definition chain_urls :: "string list" where
  "chain_urls =
     [''https://u.in'',
      ''https://u.in/academic'',
      ''https://u.in/academic/academic'',
      ''https://u.in/academic/academic/academic'',
      ''https://u.in/academic/academic/academic/academic'']"

definition ten_point_table :: table where
  "ten_point_table =
     \<lparr>th_texts = [''Grade'', ''Grade Points''],
      tr_cells = [[], [''O'', ''10''], [''A+'', ''9''], [''A'', ''8''], [''B'', ''7'']],
      tag_texts = [''Grade Grade Points'', ''Grade'', ''Grade Points'',
                   ''O 10'', ''O'', ''10'', ''A+ 9'', ''A+'', ''9'',
                   ''A 8'', ''A'', ''8'', ''B 7'', ''B'', ''7'']\<rparr>"

definition small_site :: "string \<Rightarrow> page option" where
  "small_site url =
     (if url = ''https://anna.in'' then
        Some \<lparr>tables = [], anchors = [(''/'', ''Home''), (''/academics'', ''Academics'')]\<rparr>
      else if url = ''https://anna.in/academics'' then
        Some \<lparr>tables = [ten_point_table], anchors = [(''/'', ''Home'')]\<rparr>
      else None)"






section \<open>Properties of the matcher\<close>

text \<open>
  The repetition is run with the length of the rest of the subject as its bound on the
  number of rounds. Every round that is kept consumes a character, so the bound is never
  the reason to stop: any larger bound gives the same matches.
\<close>

lemma star_ends_fuel:
  "length (snd st) \<le> n \<Longrightarrow> star_ends f (Suc n) st = star_ends f n st"
proof (induction n arbitrary: st)
  case 0
  then show ?case by simp
next
  case (Suc n)
  let ?next = "filter (\<lambda>st'. length (snd st') < length (snd st)) (f st)"
  have eq: "map (star_ends f (Suc n)) ?next = map (star_ends f n) ?next"
  proof (rule map_cong [OF refl])
    fix st' assume "st' \<in> set ?next"
    then have "length (snd st') \<le> n" using Suc.prems by auto
    then show "star_ends f (Suc n) st' = star_ends f n st'" by (rule Suc.IH)
  qed
  have "star_ends f (Suc (Suc n)) st = concat (map (star_ends f (Suc n)) ?next) @ [st]"
    by (rule star_ends.simps(2))
  also have "\<dots> = concat (map (star_ends f n) ?next) @ [st]"
    by (simp only: eq)
  also have "\<dots> = star_ends f (Suc n) st"
    by (rule star_ends.simps(2) [symmetric])
  finally show ?case .
qed

lemma star_ends_enough:
  "length (snd st) \<le> n \<Longrightarrow> star_ends f n st = star_ends f (length (snd st)) st"
proof (induction n)
  case 0
  then show ?case by simp
next
  case (Suc n)
  show ?case
  proof (cases "length (snd st) \<le> n")
    case True
    with Suc.IH star_ends_fuel [of st n f] show ?thesis by simp
  next
    case False
    with Suc.prems have "length (snd st) = Suc n" by simp
    then show ?thesis by simp
  qed
qed

section \<open>Properties of the Validator\<close>








section \<open>Properties of the Table Interpreter\<close>












section \<open>Properties of the Merger\<close>

subsection \<open>The invariant of the index\<close>

lemma merged_systems_base:
  "merged_systems existing new_systems =
     (case base_index existing of
        Inl e \<Rightarrow> Inl e
      | Inr by_id \<Rightarrow> (case upsert_new new_systems by_id of
                        Inl e \<Rightarrow> Inl e
                      | Inr by_id' \<Rightarrow> Inr (map snd by_id')))"
  by (simp add: merged_systems_def base_index_def split: sum.splits)

lemma update_fresh: "k \<notin> fst ` set al \<Longrightarrow> AList.update k v al = al @ [(k, v)]"
  by (induction al) auto

lemma set_update_cases:
  "kd \<in> set (AList.update k v al) \<Longrightarrow> kd = (k, v) \<or> kd \<in> set al"
  by (induction al) (auto split: if_splits)

lemma index_ok_update:
  assumes "index_ok b" and "id_key d = Inr k" and "admissible d"
  shows "index_ok (AList.update k d b)"
  unfolding index_ok_def
proof (intro conjI ballI)
  show "distinct (map fst (AList.update k d b))"
    using assms(1) by (simp add: index_ok_def distinct_update)
next
  fix kd assume "kd \<in> set (AList.update k d b)"
  then have "kd = (k, d) \<or> kd \<in> set b" by (rule set_update_cases)
  then show "id_key (snd kd) = Inr (fst kd)" using assms by (auto simp: index_ok_def)
next
  fix kd assume "kd \<in> set (AList.update k d b)"
  then have "kd = (k, d) \<or> kd \<in> set b" by (rule set_update_cases)
  then show "admissible (snd kd)" using assms by (auto simp: index_ok_def)
qed

lemma clean_existing_admissible:
  "clean_existing items = Inr ds \<Longrightarrow> \<forall>d \<in> set ds. admissible d"
proof (induction items arbitrary: ds)
  case Nil
  then show ?case by simp
next
  case (Cons s rest)
  then show ?case
    by (auto split: json.splits sum.splits if_splits simp: admissible_def)
qed

lemma clean_existing_fixed:
  "\<forall>d \<in> set ds. admissible d \<Longrightarrow> clean_existing (map JDict ds) = Inr ds"
  by (induction ds) (auto simp: admissible_def)

lemma index_by_id_ok:
  "index_by_id ds b = Inr b' \<Longrightarrow> index_ok b \<Longrightarrow> \<forall>d \<in> set ds. admissible d \<Longrightarrow> index_ok b'"
proof (induction ds arbitrary: b)
  case Nil
  then show ?case by simp
next
  case (Cons d ds)
  from Cons.prems(1) obtain k where k: "id_key d = Inr k"
    and rest: "index_by_id ds (AList.update k d b) = Inr b'"
    by (auto simp: id_key_def split: sum.splits)
  have "index_ok (AList.update k d b)"
    using Cons.prems k by (simp add: index_ok_update)
  with rest Cons.prems(3) show ?case by (auto intro: Cons.IH)
qed

lemma index_by_id_fixed:
  "index_ok b \<Longrightarrow> fst ` set b \<inter> fst ` set acc = {} \<Longrightarrow>
     index_by_id (map snd b) acc = Inr (acc @ b)"
proof (induction b arbitrary: acc)
  case Nil
  then show ?case by simp
next
  case (Cons kd b)
  obtain k d where kd: "kd = (k, d)" by (cases kd)
  from Cons.prems(1) have key: "id_key d = Inr k" and ok: "index_ok b" and fresh: "k \<notin> fst ` set b"
    by (auto simp: index_ok_def kd)
  from Cons.prems(2) have "k \<notin> fst ` set acc" by (auto simp: kd)
  then have upd: "AList.update k d acc = acc @ [(k, d)]" by (rule update_fresh)
  have "fst ` set b \<inter> fst ` set (acc @ [(k, d)]) = {}"
    using Cons.prems(2) fresh by (auto simp: kd)
  from Cons.IH [OF ok this] show ?case
    using key upd by (simp add: kd id_key_def)
qed

lemma upsert_new_ok:
  "upsert_new news b = Inr b' \<Longrightarrow> index_ok b \<Longrightarrow> index_ok b'"
proof (induction news arbitrary: b)
  case Nil
  then show ?case by simp
next
  case (Cons s rest)
  show ?case
  proof (cases "accepted s")
    case False
    then have "upsert_new (s # rest) b = upsert_new rest b"
      by (auto simp: accepted_def admissible_def Let_def)
    with Cons show ?thesis by simp
  next
    case True
    with Cons.prems(1) obtain k where k: "id_key s = Inr k"
      and rest: "upsert_new rest (AList.update k s b) = Inr b'"
      by (auto simp: accepted_def admissible_def id_key_def Let_def split: sum.splits if_splits)
    have "index_ok (AList.update k s b)"
      using Cons.prems(2) k True by (simp add: index_ok_update accepted_def)
    with rest show ?thesis by (rule Cons.IH)
  qed
qed

lemma upsert_new_append:
  "upsert_new (xs @ ys) b =
     (case upsert_new xs b of Inl e \<Rightarrow> Inl e | Inr b' \<Rightarrow> upsert_new ys b')"
  by (induction xs arbitrary: b) (auto simp: Let_def split: sum.splits)

lemma base_index_ok: "base_index existing = Inr b \<Longrightarrow> index_ok b"
proof -
  assume a: "base_index existing = Inr b"
  then obtain items ds where "clean_existing items = Inr ds" and "index_by_id ds [] = Inr b"
    by (auto simp: base_index_def split: sum.splits)
  moreover have "index_ok []" by (simp add: index_ok_def)
  ultimately show "index_ok b"
    using clean_existing_admissible index_by_id_ok by blast
qed

lemma base_index_fixed:
  assumes "index_ok b" and "map_of catalog ''systems'' = Some (JList (map JDict (map snd b)))"
  shows "base_index catalog = Inr b"
proof -
  have adm: "\<forall>d \<in> set (map snd b). admissible d" using assms(1) by (auto simp: index_ok_def)
  have "index_by_id (map snd b) [] = Inr ([] @ b)"
    using assms(1) by (intro index_by_id_fixed) auto
  then show ?thesis
    using assms(2) clean_existing_fixed [OF adm]
    by (simp add: base_index_def dict_get_default_def)
qed

subsection \<open>The returned catalog\<close>

lemma dict_get_update:
  "dict_get (AList.update k v al) k' = (if k' = k then v else dict_get al k')"
  by (simp add: dict_get_def update_conv')

lemma dict_get_default_update:
  "dict_get_default (AList.update k v al) k' d = (if k' = k then v else dict_get_default al k' d)"
  by (simp add: dict_get_default_def update_conv')

lemma stamped_fields:
  "dict_get (stamped e ds v t) ''systems'' = JList (map JDict ds)"
  "dict_get (stamped e ds v t) ''version'' = JStr v"
  "dict_get (stamped e ds v t) ''lastUpdated'' = JStr t"
  "dict_get_default (stamped e ds v t) ''systems'' dflt = JList (map JDict ds)"
  "dict_get_default (stamped e ds v t) ''version'' dflt = JStr v"
  "map_of (stamped e ds v t) ''systems'' = Some (JList (map JDict ds))"
  by (simp_all add: stamped_def dict_get_update dict_get_default_update update_conv')

lemma stamped_other:
  "k \<notin> {''systems'', ''version'', ''lastUpdated''} \<Longrightarrow>
     map_of (stamped e ds v t) k = map_of e k"
  by (simp add: stamped_def update_conv')

lemma stamped_keys: "map fst (stamped e ds v t) = map fst (stamped e ds' v' t')"
  by (simp add: stamped_def update_keys)

lemma merge_into_existing_Inr:
  "merge_into_existing existing new_systems today = Inr merged \<longleftrightarrow>
     (\<exists>b0 b version. base_index existing = Inr b0 \<and> upsert_new new_systems b0 = Inr b \<and>
        dict_get_default existing ''version'' (JStr ''1.0.0'') = JStr version \<and>
        merged = stamped existing (map snd b) (bump_version version) today)"
  by (auto simp: merge_into_existing_def merged_systems_base stamped_def
           split: sum.splits json.splits)

lemma distinct_map_outer: "distinct (map (\<lambda>x. g (f x)) xs) \<Longrightarrow> distinct (map f xs)"
  by (induction xs) auto

lemma distinct_map_Inr: "distinct xs \<Longrightarrow> distinct (map Inr xs)"
  by (induction xs) auto

lemma index_ok_keys:
  assumes "index_ok b"
  shows "map id_key (map snd b) = map Inr (map fst b)"
  using assms by (induction b) (auto simp: index_ok_def)

lemma index_ok_distinct_ids:
  assumes "index_ok b"
  shows "distinct (map id_key (map snd b))"
    and "distinct (map (\<lambda>d. dict_get d ''id'') (map snd b))"
proof -
  have "distinct (map fst b)" using assms by (simp add: index_ok_def)
  then have "distinct (map (Inr :: pykey \<Rightarrow> error + pykey) (map fst b))"
    by (rule distinct_map_Inr)
  then show d: "distinct (map id_key (map snd b))"
    by (simp only: index_ok_keys [OF assms])
  have "distinct (map (\<lambda>d. py_hash_key (dict_get d ''id'')) (map snd b))"
    using d by (simp add: id_key_def [abs_def])
  then show "distinct (map (\<lambda>d. dict_get d ''id'') (map snd b))"
    by (rule distinct_map_outer)
qed

lemma upsert_new_skip:
  "\<not> truthy (dict_get s ''id'') \<Longrightarrow> upsert_new (s # rest) b = upsert_new rest b"
  by (simp add: Let_def)


subsection \<open>Upserts\<close>

lemma upsert_new_step:
  "upsert_new (s # rest) b =
     (if accepted s then (case id_key s of Inl e \<Rightarrow> Inl e
                          | Inr k \<Rightarrow> upsert_new rest (AList.update k s b))
      else upsert_new rest b)"
  by (auto simp: accepted_def admissible_def id_key_def Let_def)

declare upsert_new.simps(2) [simp del]

lemma upsert_new_single:
  "id_key s = Inr k \<Longrightarrow> upsert_new [s] b = Inr (put s b)"
  by (simp add: upsert_new_step put_def)

lemma upsert_new_keeps:
  "upsert_new rest b = Inr b' \<Longrightarrow> map_of b k = Some s \<Longrightarrow>
     \<forall>t \<in> set rest. accepted t \<longrightarrow> id_key t \<noteq> Inr k \<Longrightarrow> map_of b' k = Some s"
proof (induction rest arbitrary: b)
  case Nil
  then show ?case by simp
next
  case (Cons t rest)
  show ?case
  proof (cases "accepted t")
    case False
    with Cons show ?thesis by (simp add: upsert_new_step)
  next
    case True
    with Cons.prems(1) obtain k' where k': "id_key t = Inr k'"
      and rest: "upsert_new rest (AList.update k' t b) = Inr b'"
      by (auto simp: upsert_new_step split: sum.splits)
    have "k' \<noteq> k" using Cons.prems(3) True k' by auto
    then have "map_of (AList.update k' t b) k = Some s"
      using Cons.prems(2) by (simp add: update_conv')
    with rest Cons.prems(3) show ?thesis by (auto intro: Cons.IH)
  qed
qed

lemma upsert_new_last_wins:
  assumes "upsert_new (before @ s # after) b0 = Inr b"
    and "accepted s" and "id_key s = Inr k"
    and "\<forall>t \<in> set after. accepted t \<longrightarrow> id_key t \<noteq> Inr k"
  shows "map_of b k = Some s"
proof -
  from assms(1) obtain b1 where "upsert_new (s # after) b1 = Inr b"
    by (auto simp: upsert_new_append split: sum.splits)
  then have "upsert_new after (AList.update k s b1) = Inr b"
    using assms(2,3) by (simp add: upsert_new_step)
  moreover have "map_of (AList.update k s b1) k = Some s" by (simp add: update_conv')
  ultimately show ?thesis using assms(4) by (rule upsert_new_keeps)
qed

lemma filter_same_key:
  "distinct (map f xs) \<Longrightarrow> x \<in> set xs \<Longrightarrow> filter (\<lambda>y. f y = f x) xs = [x]"
proof (induction xs)
  case Nil
  then show ?case by simp
next
  case (Cons y ys)
  show ?case
  proof (cases "y = x")
    case True
    then have "f x \<notin> f ` set ys" using Cons.prems(1) by simp
    then have "\<forall>z \<in> set ys. f z \<noteq> f x" by (metis imageI)
    then have "filter (\<lambda>y. f y = f x) ys = []" by (simp add: filter_empty_conv)
    with True show ?thesis by simp
  next
    case False
    then have "x \<in> set ys" using Cons.prems(2) by simp
    then have "f y \<noteq> f x" using Cons.prems(1) by auto
    with Cons \<open>x \<in> set ys\<close> show ?thesis by simp
  qed
qed

lemma entry_unique:
  assumes "index_ok b" and "map_of b k = Some s"
  shows "filter (\<lambda>d. dict_get d ''id'' = dict_get s ''id'') (map snd b) = [s]"
proof -
  have "s \<in> set (map snd b)" using assms(2) by (force dest: map_of_SomeD)
  then show ?thesis
    using index_ok_distinct_ids(2) [OF assms(1)] by (intro filter_same_key) 
qed

lemma upsert_new_total:
  "\<forall>s \<in> set news. \<exists>k. id_key s = Inr k \<Longrightarrow> \<exists>b'. upsert_new news b = Inr b'"
  by (induction news arbitrary: b) (auto simp: upsert_new_step)

lemma py_hash_key_str: "py_hash_key x = Inr (KStr sid) \<longleftrightarrow> x = JStr sid"
  by (cases x) auto

lemma merge_upserts:
  assumes "merge_into_existing existing (before @ s # after) today = Inr merged"
    and "accepted s" and "id_key s = Inr k"
    and "\<forall>t \<in> set after. accepted t \<longrightarrow> id_key t \<noteq> Inr k"
  shows "\<exists>ds. dict_get merged ''systems'' = JList (map JDict ds) \<and>
              filter (\<lambda>d. dict_get d ''id'' = dict_get s ''id'') ds = [s]"
proof -
  from assms(1) obtain b0 b version where b0: "base_index existing = Inr b0"
    and b: "upsert_new (before @ s # after) b0 = Inr b"
    and m: "merged = stamped existing (map snd b) (bump_version version) today"
    by (auto simp: merge_into_existing_Inr)
  have ok: "index_ok b" using b0 b base_index_ok upsert_new_ok by blast
  have "map_of b k = Some s" using b assms(2-4) by (rule upsert_new_last_wins)
  with ok have "filter (\<lambda>d. dict_get d ''id'' = dict_get s ''id'') (map snd b) = [s]"
    by (rule entry_unique)
  then show ?thesis using m stamped_fields(1) by blast
qed

lemma mset_update_swap:
  "ka \<noteq> kb \<Longrightarrow>
     mset (AList.update kb y (AList.update ka x al)) = mset (AList.update ka x (AList.update kb y al))"
  by (induction al) auto

lemma mset_put_swap:
  assumes "id_key a = Inr ka" and "id_key b = Inr kb" and "ka \<noteq> kb"
  shows "mset (put b (put a al)) = mset (put a (put b al))"
  using assms by (simp add: put_def mset_update_swap)

lemma index_ok_put: "index_ok b \<Longrightarrow> index_ok (put s b)"
  by (auto simp: put_def accepted_def index_ok_update split: sum.splits)

lemma update_keys_cong:
  "map fst al = map fst al' \<Longrightarrow> map fst (AList.update k v al) = map fst (AList.update k v' al')"
  by (simp add: update_keys)

lemma stamped_keys_cong:
  "map fst e = map fst e' \<Longrightarrow> map fst (stamped e ds v t) = map fst (stamped e' ds' v' t')"
  unfolding stamped_def by (intro update_keys_cong)

lemma delete_stamped:
  "AList.delete ''systems'' (stamped e ds v t) =
     AList.update ''lastUpdated'' (JStr t)
       (AList.update ''version'' (JStr v) (AList.delete ''systems'' e))"
  by (simp add: stamped_def delete_update delete_update_same)

lemma merge_single:
  assumes "id_key s = Inr k"
  shows "merge_into_existing existing [s] today =
     (case base_index existing of
        Inl e \<Rightarrow> Inl e
      | Inr b0 \<Rightarrow>
          (case dict_get_default existing ''version'' (JStr ''1.0.0'') of
             JStr version \<Rightarrow> Inr (stamped existing (map snd (put s b0)) (bump_version version) today)
           | _ \<Rightarrow> Inl AttributeError))"
  using assms
  by (simp add: merge_into_existing_def merged_systems_base upsert_new_single stamped_def
           split: sum.splits json.splits)

lemma merge_then_eq:
  assumes "id_key a = Inr ka" and "id_key b = Inr kb"
  shows "merge_then existing a b t1 t2 =
     (case base_index existing of
        Inl e \<Rightarrow> Inl e
      | Inr b0 \<Rightarrow>
          (case dict_get_default existing ''version'' (JStr ''1.0.0'') of
             JStr version \<Rightarrow>
               Inr (stamped (stamped existing (map snd (put a b0)) (bump_version version) t1)
                      (map snd (put b (put a b0))) (bump_version (bump_version version)) t2)
           | _ \<Rightarrow> Inl AttributeError))"
proof (cases "base_index existing")
  case (Inl e)
  then show ?thesis by (simp add: merge_then_def merge_single [OF assms(1)])
next
  case (Inr b0)
  show ?thesis
  proof (cases "\<exists>version. dict_get_default existing ''version'' (JStr ''1.0.0'') = JStr version")
    case False
    then show ?thesis
      using Inr by (auto simp: merge_then_def merge_single [OF assms(1)] split: json.splits)
  next
    case True
    then obtain version where v: "dict_get_default existing ''version'' (JStr ''1.0.0'') = JStr version"
      by blast
    let ?m = "stamped existing (map snd (put a b0)) (bump_version version) t1"
    have ok: "index_ok (put a b0)" using Inr base_index_ok index_ok_put by blast
    have "base_index ?m = Inr (put a b0)"
      using ok stamped_fields(6) by (rule base_index_fixed)
    then have "merge_into_existing ?m [b] t2 =
        Inr (stamped ?m (map snd (put b (put a b0))) (bump_version (bump_version version)) t2)"
      by (simp add: merge_single [OF assms(2)] stamped_fields)
    then show ?thesis
      using Inr v by (simp add: merge_then_def merge_single [OF assms(1)])
  qed
qed

lemma systems_of_stamped: "systems_of (stamped e ds v t) = map JDict ds"
  by (simp add: systems_of_def stamped_fields)

lemma same_up_to_order_stamped:
  assumes "mset ds = mset ds'"
  shows "same_up_to_order (stamped e ds v t) (stamped e ds' v t)"
  using assms unfolding same_up_to_order_def
  by (simp add: stamped_keys_cong delete_stamped systems_of_stamped)

lemma same_up_to_order_stamped2:
  assumes "mset ds = mset ds'"
  shows "same_up_to_order (stamped (stamped e xs v1 t1) ds v t) (stamped (stamped e xs' v1 t1) ds' v t)"
  using assms unfolding same_up_to_order_def
  by (simp add: stamped_keys_cong delete_stamped systems_of_stamped)

lemma upsert_new_pair:
  "id_key a = Inr ka \<Longrightarrow> id_key b = Inr kb \<Longrightarrow> upsert_new [a, b] b0 = Inr (put b (put a b0))"
  by (simp add: upsert_new_step put_def)

lemma merge_pair:
  assumes "id_key a = Inr ka" and "id_key b = Inr kb"
  shows "merge_into_existing existing [a, b] today =
     (case base_index existing of
        Inl e \<Rightarrow> Inl e
      | Inr b0 \<Rightarrow>
          (case dict_get_default existing ''version'' (JStr ''1.0.0'') of
             JStr version \<Rightarrow>
               Inr (stamped existing (map snd (put b (put a b0))) (bump_version version) today)
           | _ \<Rightarrow> Inl AttributeError))"
  using assms
  by (simp add: merge_into_existing_def merged_systems_base upsert_new_pair stamped_def
           split: sum.splits json.splits)

lemma accepted_upsert_key:
  assumes "upsert_new (before @ s # after) b0 = Inr b" and "accepted s"
  obtains k where "id_key s = Inr k"
proof -
  from assms(1) obtain b1 where "upsert_new (s # after) b1 = Inr b"
    by (auto simp: upsert_new_append split: sum.splits)
  with assms(2) show ?thesis
    using that by (auto simp: upsert_new_step split: sum.splits)
qed

lemma merge_accepted_key:
  assumes "merge_into_existing existing (before @ s # after) today = Inr merged" and "accepted s"
  obtains k where "id_key s = Inr k"
  using assms by (auto simp: merge_into_existing_Inr elim: accepted_upsert_key)


subsection \<open>Systems of other countries and the baselines\<close>

lemma foreign_with_idD:
  assumes "foreign_with_id s"
  obtains sid where "dict_get s ''id'' = JStr sid" and "sid \<noteq> []"
    and "accepted s" and "id_key s = Inr (KStr sid)"
  using assms
  by (auto simp: foreign_with_id_def accepted_def admissible_def id_key_def split: json.splits)

lemma baselines_foreign: "list_all foreign_with_id country_baselines"
  by code_simp

lemma baselines_distinct: "distinct (map (\<lambda>d. dict_get d ''id'') country_baselines)"
  by code_simp

lemma merge_total:
  assumes "merge_into_existing existing [] today = Inr unchanged"
    and "\<forall>s \<in> set news. \<exists>k. id_key s = Inr k"
  shows "\<exists>merged. merge_into_existing existing news today = Inr merged"
proof -
  from assms(1) obtain b0 version where "base_index existing = Inr b0"
    and "dict_get_default existing ''version'' (JStr ''1.0.0'') = JStr version"
    by (auto simp: merge_into_existing_Inr)
  moreover obtain b where "upsert_new news b0 = Inr b"
    using upsert_new_total [OF assms(2)] by blast
  ultimately show ?thesis by (auto simp: merge_into_existing_Inr)
qed

lemma merge_upserts_foreign:
  assumes "merge_into_existing existing (before @ s # after) today = Inr merged"
    and "dict_get s ''country'' \<noteq> JStr ''India''"
    and "dict_get s ''id'' = JStr sid" and "sid \<noteq> []"
    and "\<forall>t \<in> set after. dict_get t ''id'' \<noteq> JStr sid"
  shows "\<exists>ds. dict_get merged ''systems'' = JList (map JDict ds) \<and>
              filter (\<lambda>d. dict_get d ''id'' = JStr sid) ds = [s]"
proof -
  have acc: "accepted s" using assms(2-4) by (simp add: accepted_def admissible_def)
  have key: "id_key s = Inr (KStr sid)" using assms(3) by (simp add: id_key_def)
  have "\<forall>t \<in> set after. accepted t \<longrightarrow> id_key t \<noteq> Inr (KStr sid)"
    using assms(5) by (simp add: id_key_def py_hash_key_str)
  from merge_upserts [OF assms(1) acc key this] show ?thesis by (simp add: assms(3))
qed

lemma upsert_foreign_step:
  assumes "dict_get s ''country'' \<noteq> JStr ''India''"
    and "dict_get s ''id'' = JStr sid" and "sid \<noteq> []"
  shows "upsert_new (s # rest) b = upsert_new rest (AList.update (KStr sid) s b)"
  using assms by (simp add: upsert_new_step accepted_def admissible_def id_key_def)

lemma map_JDict_inj: "map JDict xs = map JDict ys \<longleftrightarrow> xs = ys"
  by (rule inj_map_eq_map) (simp add: inj_on_def)

lemma merge_baselines:
  assumes "merge_into_existing existing country_baselines today = Inr merged"
  shows "\<exists>ds. dict_get merged ''systems'' = JList (map JDict ds) \<and>
            (\<forall>s \<in> set country_baselines.
               filter (\<lambda>d. dict_get d ''id'' = dict_get s ''id'') ds = [s])"
proof -
  from assms obtain b0 b version where "base_index existing = Inr b0"
    and "upsert_new country_baselines b0 = Inr b"
    and "merged = stamped existing (map snd b) (bump_version version) today"
    by (auto simp: merge_into_existing_Inr)
  then have m: "dict_get merged ''systems'' = JList (map JDict (map snd b))"
    by (simp only: stamped_fields(1))
  have "filter (\<lambda>d. dict_get d ''id'' = dict_get s ''id'') (map snd b) = [s]"
    if s: "s \<in> set country_baselines" for s
  proof -
    from s obtain before after where split: "country_baselines = before @ s # after"
      by (auto dest: split_list)
    have "foreign_with_id s" using s baselines_foreign by (simp add: list_all_iff)
    then obtain sid where sid: "dict_get s ''id'' = JStr sid" "sid \<noteq> []"
      and country: "dict_get s ''country'' \<noteq> JStr ''India''"
      by (auto simp: foreign_with_id_def split: json.splits)
    have notin: "JStr sid \<notin> (\<lambda>d. dict_get d ''id'') ` set after"
      using baselines_distinct sid(1) by (simp add: split)
    have "\<forall>t \<in> set after. dict_get t ''id'' \<noteq> JStr sid"
    proof (intro ballI notI)
      fix t assume t: "t \<in> set after" and eq: "dict_get t ''id'' = JStr sid"
      from t have "(\<lambda>d. dict_get d ''id'') t \<in> (\<lambda>d. dict_get d ''id'') ` set after"
        by (rule imageI)
      with eq notin show False by simp
    qed
    from merge_upserts_foreign [OF assms [unfolded split] country sid this]
    obtain ds where "dict_get merged ''systems'' = JList (map JDict ds)"
      and f: "filter (\<lambda>d. dict_get d ''id'' = JStr sid) ds = [s]" by blast
    with m have "map JDict ds = map JDict (map snd b)" by simp
    then have "ds = map snd b" by (simp only: map_JDict_inj)
    with f sid(1) show ?thesis by simp
  qed
  with m show ?thesis by blast
qed


subsection \<open>Indian entries of the merged catalog\<close>




subsection \<open>Version strings\<close>















subsection \<open>Claims about a single merge\<close>

text \<open>
  C10. Whatever the existing catalog and the new systems are, the systems of the catalog
  that merge returns have pairwise distinct ids. They are distinct even as dictionary keys
  (\<open>id_key\<close>), where \<^verbatim>\<open>1\<close> and \<^verbatim>\<open>1.0\<close> count as one id and a missing id counts as
  \<^verbatim>\<open>None\<close>.
\<close>

theorem merged_ids_distinct:
  assumes "merge_into_existing existing new_systems today = Inr merged"
  shows "\<exists>ds. dict_get merged ''systems'' = JList (map JDict ds) \<and>
              distinct (map id_key ds) \<and>
              distinct (map (\<lambda>d. dict_get d ''id'') ds)"
proof -
  from assms obtain b0 b version where b0: "base_index existing = Inr b0"
    and b: "upsert_new new_systems b0 = Inr b"
    and m: "merged = stamped existing (map snd b) (bump_version version) today"
    by (auto simp: merge_into_existing_Inr)
  have "index_ok b" using b0 b base_index_ok upsert_new_ok by blast
  then show ?thesis
    using m index_ok_distinct_ids [of b] stamped_fields(1) by blast
qed

text \<open>Two existing entries and two new systems that share their ids leave two entries.\<close>

theorem merged_ids_distinct_witness:
  "merge_into_existing dup_catalog [anna_university, anna_university] ''2026-11-04''
     = Inr dup_merged \<and>
   (\<exists>ds. dict_get dup_merged ''systems'' = JList (map JDict ds) \<and>
         distinct (map id_key ds) \<and>
         distinct (map (\<lambda>d. dict_get d ''id'') ds))"
proof -
  have m: "merge_into_existing dup_catalog [anna_university, anna_university] ''2026-11-04''
             = Inr dup_merged"
    by code_simp
  from merged_ids_distinct [OF m] m show ?thesis by blast
qed

text \<open>
  C9. A new system whose id is missing or empty (or falsy in any other way) is skipped:
  the merge returns what it returns without that system, whether or not the system would
  pass the Validator.
\<close>

theorem merge_skips_missing_id:
  assumes "\<not> truthy (dict_get s ''id'')"
  shows "merge_into_existing existing (before @ s # after) today =
         merge_into_existing existing (before @ after) today"
proof -
  have "upsert_new (before @ s # after) b = upsert_new (before @ after) b" for b
    using assms by (simp add: upsert_new_append upsert_new_skip split: sum.splits)
  then show ?thesis
    by (simp add: merge_into_existing_def merged_systems_base split: sum.splits)
qed

text \<open>A system that passes the Validator and has no id.\<close>

theorem merge_skips_missing_id_witness:
  "is_valid_indian_system anna_without_id \<and>
   merge_into_existing catalog_103 ([] @ anna_without_id # []) ''2026-11-04'' =
   merge_into_existing catalog_103 ([] @ []) ''2026-11-04'' \<and>
   merge_into_existing catalog_103 [] ''2026-11-04'' =
     Inr [(''version'', JStr ''1.0.4''), (''systems'', JList []),
          (''lastUpdated'', JStr ''2026-11-04'')]"
proof -
  have "\<not> truthy (dict_get anna_without_id ''id'')"
    by code_simp
  then have "merge_into_existing catalog_103 ([] @ anna_without_id # []) ''2026-11-04'' =
             merge_into_existing catalog_103 ([] @ []) ''2026-11-04''"
    by (rule merge_skips_missing_id)
  moreover have "is_valid_indian_system anna_without_id"
    by code_simp
  moreover have "merge_into_existing catalog_103 [] ''2026-11-04'' =
     Inr [(''version'', JStr ''1.0.4''), (''systems'', JList []),
          (''lastUpdated'', JStr ''2026-11-04'')]"
    by code_simp
  ultimately show ?thesis by blast
qed

subsection \<open>Claims about two merges\<close>

text \<open>
  C2, as the specification states it: for systems \<open>A\<close> and \<open>B\<close> with distinct ids, merging
  \<open>A\<close> then \<open>B\<close> yields the same final catalog as merging \<open>B\<close> then \<open>A\<close>. This fails on the
  code: two ids that are both new to the catalog are appended in the order of their
  merges, so the two \<^verbatim>\<open>systems\<close> lists differ.
\<close>

theorem merge_order_counterexample:
  "dict_get system_p ''id'' \<noteq> dict_get system_q ''id'' \<and>
   merge_then catalog_103 system_p system_q ''2026-11-03'' ''2026-11-04'' =
     Inr [(''version'', JStr ''1.0.5''),
          (''systems'', JList [JDict system_p, JDict system_q]),
          (''lastUpdated'', JStr ''2026-11-04'')] \<and>
   merge_then catalog_103 system_q system_p ''2026-11-03'' ''2026-11-04'' =
     Inr [(''version'', JStr ''1.0.5''),
          (''systems'', JList [JDict system_q, JDict system_p]),
          (''lastUpdated'', JStr ''2026-11-04'')] \<and>
   merge_then catalog_103 system_p system_q ''2026-11-03'' ''2026-11-04'' \<noteq>
   merge_then catalog_103 system_q system_p ''2026-11-03'' ''2026-11-04''"
  by code_simp

text \<open>
  C2, amended. For systems \<open>A\<close> and \<open>B\<close> whose ids are distinct dictionary keys, merging
  \<open>A\<close> then \<open>B\<close> and merging \<open>B\<close> then \<open>A\<close> either fail with the same exception or return
  catalogs that have the same keys in the same order, the same value in every field other
  than \<^verbatim>\<open>systems\<close>, and the same systems up to their order in the list. The same holds
  for one call of merge on the list \<open>[A, B]\<close> and on the list \<open>[B, A]\<close>.
\<close>

theorem merge_order_up_to_order:
  assumes "id_key a = Inr ka" and "id_key b = Inr kb" and "ka \<noteq> kb"
  shows "rel_sum (=) same_up_to_order
           (merge_then existing a b today1 today2) (merge_then existing b a today1 today2) \<and>
         rel_sum (=) same_up_to_order
           (merge_into_existing existing [a, b] today1) (merge_into_existing existing [b, a] today1)"
proof -
  have sw: "mset (map snd (put b (put a b0))) = mset (map snd (put a (put b b0)))" for b0
    using mset_put_swap [OF assms, of b0] by (metis mset_map)
  have "rel_sum (=) same_up_to_order
           (merge_then existing a b today1 today2) (merge_then existing b a today1 today2)"
    by (simp add: merge_then_eq [OF assms(1,2)] merge_then_eq [OF assms(2,1)]
          same_up_to_order_stamped2 [OF sw] split: sum.splits json.splits)
  moreover have "rel_sum (=) same_up_to_order
           (merge_into_existing existing [a, b] today1) (merge_into_existing existing [b, a] today1)"
    by (simp add: merge_pair [OF assms(1,2)] merge_pair [OF assms(2,1)]
          same_up_to_order_stamped [OF sw] split: sum.splits json.splits)
  ultimately show ?thesis by simp
qed

theorem merge_order_up_to_order_witness:
  "rel_sum (=) same_up_to_order
     (merge_then catalog_103 system_p system_q ''2026-11-03'' ''2026-11-04'')
     (merge_then catalog_103 system_q system_p ''2026-11-03'' ''2026-11-04'') \<and>
   rel_sum (=) same_up_to_order
     (merge_into_existing catalog_103 [system_p, system_q] ''2026-11-03'')
     (merge_into_existing catalog_103 [system_q, system_p] ''2026-11-03'') \<and>
   merge_into_existing catalog_103 [system_p, system_q] ''2026-11-03'' =
     Inr [(''version'', JStr ''1.0.4''),
          (''systems'', JList [JDict system_p, JDict system_q]),
          (''lastUpdated'', JStr ''2026-11-03'')]"
proof -
  have "id_key system_p = Inr (KStr ''p'')" "id_key system_q = Inr (KStr ''q'')"
    "KStr ''p'' \<noteq> KStr ''q''"
    by (simp_all add: id_key_def system_p_def system_q_def dict_get_def)
  from merge_order_up_to_order [OF this]
  have "rel_sum (=) same_up_to_order
     (merge_then catalog_103 system_p system_q ''2026-11-03'' ''2026-11-04'')
     (merge_then catalog_103 system_q system_p ''2026-11-03'' ''2026-11-04'') \<and>
   rel_sum (=) same_up_to_order
     (merge_into_existing catalog_103 [system_p, system_q] ''2026-11-03'')
     (merge_into_existing catalog_103 [system_q, system_p] ''2026-11-03'')" .
  moreover have "merge_into_existing catalog_103 [system_p, system_q] ''2026-11-03'' =
     Inr [(''version'', JStr ''1.0.4''),
          (''systems'', JList [JDict system_p, JDict system_q]),
          (''lastUpdated'', JStr ''2026-11-03'')]"
    by code_simp
  ultimately show ?thesis by blast
qed

text \<open>
  C4. Merging a system and then merging a validated system with the same id (the same
  system again, or its latest values) yields a catalog with exactly one entry of that id,
  and this entry is the system merged last. The same holds when both are given to one
  call of merge.
\<close>

theorem merge_same_id_twice:
  assumes "accepted s2" and "dict_get s1 ''id'' = dict_get s2 ''id''"
  shows "(merge_then existing s1 s2 today1 today2 = Inr merged \<longrightarrow>
            (\<exists>ds. dict_get merged ''systems'' = JList (map JDict ds) \<and>
                  filter (\<lambda>d. dict_get d ''id'' = dict_get s2 ''id'') ds = [s2])) \<and>
         (merge_into_existing existing [s1, s2] today1 = Inr merged' \<longrightarrow>
            (\<exists>ds. dict_get merged' ''systems'' = JList (map JDict ds) \<and>
                  filter (\<lambda>d. dict_get d ''id'' = dict_get s2 ''id'') ds = [s2]))"
proof (intro conjI impI)
  assume "merge_then existing s1 s2 today1 today2 = Inr merged"
  then obtain m1 where m2: "merge_into_existing m1 ([] @ s2 # []) today2 = Inr merged"
    by (auto simp: merge_then_def split: sum.splits)
  from m2 assms(1) obtain k where k: "id_key s2 = Inr k" by (rule merge_accepted_key)
  show "\<exists>ds. dict_get merged ''systems'' = JList (map JDict ds) \<and>
                  filter (\<lambda>d. dict_get d ''id'' = dict_get s2 ''id'') ds = [s2]"
    using merge_upserts [OF m2 assms(1) k] by simp
next
  assume "merge_into_existing existing [s1, s2] today1 = Inr merged'"
  then have m: "merge_into_existing existing ([s1] @ s2 # []) today1 = Inr merged'" by simp
  from m assms(1) obtain k where k: "id_key s2 = Inr k" by (rule merge_accepted_key)
  show "\<exists>ds. dict_get merged' ''systems'' = JList (map JDict ds) \<and>
                  filter (\<lambda>d. dict_get d ''id'' = dict_get s2 ''id'') ds = [s2]"
    using merge_upserts [OF m assms(1) k] by simp
qed

theorem merge_same_id_twice_witness:
  "accepted anna_university \<and>
   dict_get anna_older ''id'' = dict_get anna_university ''id'' \<and>
   merge_then catalog_103 anna_older anna_university ''2026-11-03'' ''2026-11-04''
     = Inr anna_merged \<and>
   (\<exists>ds. dict_get anna_merged ''systems'' = JList (map JDict ds) \<and>
         filter (\<lambda>d. dict_get d ''id'' = dict_get anna_university ''id'') ds
           = [anna_university])"
proof -
  have a: "accepted anna_university"
    by code_simp
  have i: "dict_get anna_older ''id'' = dict_get anna_university ''id''"
    by code_simp
  have m: "merge_then catalog_103 anna_older anna_university ''2026-11-03'' ''2026-11-04''
             = Inr anna_merged"
    by code_simp
  from merge_same_id_twice [OF a i, of catalog_103 "''2026-11-03''" "''2026-11-04''" anna_merged] m
  have "\<exists>ds. dict_get anna_merged ''systems'' = JList (map JDict ds) \<and>
         filter (\<lambda>d. dict_get d ''id'' = dict_get anna_university ''id'') ds
           = [anna_university]"
    by blast
  with a i m show ?thesis by blast
qed

subsection \<open>Baseline mode\<close>

text \<open>
  C8. The Validator is consulted only for systems whose country is India. A new system of
  another country whose id is a non-empty string is stored in \<^verbatim>\<open>by_id\<close> by a step of the
  loop that does not depend on the Validator, and (when no later new system has the same
  id) the merged catalog holds it, unchanged, as the one entry of that id. In particular,
  on every catalog that merge accepts, merging the systems of baseline mode succeeds and
  every baseline is in the result unchanged, among them the scales of 20 points that the
  Validator would reject.
\<close>

theorem foreign_systems_bypass_validator:
  "(dict_get s ''country'' \<noteq> JStr ''India'' \<and> dict_get s ''id'' = JStr sid \<and> sid \<noteq> []
      \<longrightarrow> upsert_new (s # rest) by_id = upsert_new rest (AList.update (KStr sid) s by_id)) \<and>
   (merge_into_existing existing (before @ s # after) today = Inr merged \<and>
    dict_get s ''country'' \<noteq> JStr ''India'' \<and> dict_get s ''id'' = JStr sid \<and> sid \<noteq> [] \<and>
    (\<forall>t \<in> set after. dict_get t ''id'' \<noteq> JStr sid)
      \<longrightarrow> (\<exists>ds. dict_get merged ''systems'' = JList (map JDict ds) \<and>
                filter (\<lambda>d. dict_get d ''id'' = JStr sid) ds = [s])) \<and>
   (merge_into_existing existing [] today = Inr unchanged
      \<longrightarrow> (\<exists>merged' ds.
             merge_into_existing existing country_baselines today = Inr merged' \<and>
             dict_get merged' ''systems'' = JList (map JDict ds) \<and>
             (\<forall>b \<in> set country_baselines.
                filter (\<lambda>d. dict_get d ''id'' = dict_get b ''id'') ds = [b]))) \<and>
   (baseline_portugal_20 \<in> set country_baselines \<and>
    dict_get baseline_portugal_20 ''scale'' = JFloat 20 \<and>
    \<not> is_valid_indian_system baseline_portugal_20)"
proof (intro conjI impI)
  assume "dict_get s ''country'' \<noteq> JStr ''India'' \<and> dict_get s ''id'' = JStr sid \<and> sid \<noteq> []"
  then show "upsert_new (s # rest) by_id = upsert_new rest (AList.update (KStr sid) s by_id)"
    by (simp add: upsert_foreign_step)
next
  assume "merge_into_existing existing (before @ s # after) today = Inr merged \<and>
    dict_get s ''country'' \<noteq> JStr ''India'' \<and> dict_get s ''id'' = JStr sid \<and> sid \<noteq> [] \<and>
    (\<forall>t \<in> set after. dict_get t ''id'' \<noteq> JStr sid)"
  then show "\<exists>ds. dict_get merged ''systems'' = JList (map JDict ds) \<and>
                filter (\<lambda>d. dict_get d ''id'' = JStr sid) ds = [s]"
    by (blast intro: merge_upserts_foreign)
next
  assume u: "merge_into_existing existing [] today = Inr unchanged"
  have "\<forall>s \<in> set country_baselines. \<exists>k. id_key s = Inr k"
    using baselines_foreign by (auto simp: list_all_iff elim: foreign_with_idD)
  from merge_total [OF u this] obtain merged'
    where m: "merge_into_existing existing country_baselines today = Inr merged'" by blast
  from merge_baselines [OF m] m
  show "\<exists>merged' ds.
             merge_into_existing existing country_baselines today = Inr merged' \<and>
             dict_get merged' ''systems'' = JList (map JDict ds) \<and>
             (\<forall>b \<in> set country_baselines.
                filter (\<lambda>d. dict_get d ''id'' = dict_get b ''id'') ds = [b])"
    by blast
next
  show "baseline_portugal_20 \<in> set country_baselines"
    by (simp add: country_baselines_def)
  show "dict_get baseline_portugal_20 ''scale'' = JFloat 20"
    by (simp add: baseline_portugal_20_def dict_get_def)
  show "\<not> is_valid_indian_system baseline_portugal_20"
    by code_simp
qed


theorem foreign_systems_bypass_validator_witness:
  "\<not> is_valid_indian_system baseline_portugal_20 \<and>
   merge_into_existing catalog_103 ([] @ baseline_portugal_20 # []) ''2026-11-04''
     = Inr portugal_merged \<and>
   (\<exists>ds. dict_get portugal_merged ''systems'' = JList (map JDict ds) \<and>
         filter (\<lambda>d. dict_get d ''id'' = JStr ''portugal_20'') ds = [baseline_portugal_20]) \<and>
   (\<exists>merged' ds.
      merge_into_existing catalog_103 country_baselines ''2026-11-04'' = Inr merged' \<and>
      dict_get merged' ''systems'' = JList (map JDict ds) \<and>
      list_all (\<lambda>b. filter (\<lambda>d. dict_get d ''id'' = dict_get b ''id'') ds = [b])
        country_baselines)"
proof -
  have c: "dict_get baseline_portugal_20 ''country'' \<noteq> JStr ''India''"
    and i: "dict_get baseline_portugal_20 ''id'' = JStr ''portugal_20''"
    by (simp_all add: baseline_portugal_20_def dict_get_def)
  have m: "merge_into_existing catalog_103 ([] @ baseline_portugal_20 # []) ''2026-11-04''
             = Inr portugal_merged"
    by code_simp
  have u: "merge_into_existing catalog_103 [] ''2026-11-04'' =
     Inr [(''version'', JStr ''1.0.4''), (''systems'', JList []),
          (''lastUpdated'', JStr ''2026-11-04'')]"
    by code_simp
  note inst = foreign_systems_bypass_validator
    [of baseline_portugal_20 "''portugal_20''" "[]" "[]" catalog_103 "[]" "[]" "''2026-11-04''"
        portugal_merged]
  have "\<not> is_valid_indian_system baseline_portugal_20" using inst by blast
  moreover have "\<exists>ds. dict_get portugal_merged ''systems'' = JList (map JDict ds) \<and>
         filter (\<lambda>d. dict_get d ''id'' = JStr ''portugal_20'') ds = [baseline_portugal_20]"
    using inst m c i by simp
  moreover have "\<exists>merged' ds.
      merge_into_existing catalog_103 country_baselines ''2026-11-04'' = Inr merged' \<and>
      dict_get merged' ''systems'' = JList (map JDict ds) \<and>
      list_all (\<lambda>b. filter (\<lambda>d. dict_get d ''id'' = dict_get b ''id'') ds = [b])
        country_baselines"
    using inst u by (simp add: list_all_iff)
  ultimately show ?thesis using m by blast
qed

subsection \<open>The version bump\<close>



section \<open>Properties of the Site Crawler\<close>

lemma first_match_none: "\<forall>u \<in> set urls. parse_of fetch u = None \<Longrightarrow> first_match fetch urls = None"
  by (induction urls) (auto simp: first_match_def)

lemma find_snoc_none:
  "\<forall>u \<in> set urls. \<not> P u \<Longrightarrow> find P (urls @ [url]) = (if P url then Some url else None)"
  by (induction urls) auto

lemma first_match_snoc:
  "\<forall>u \<in> set urls. parse_of fetch u = None \<Longrightarrow>
     first_match fetch (urls @ [url]) = parse_of fetch url"
  by (cases "parse_of fetch url") (simp_all add: first_match_def find_snoc_none)

lemma explore_loop_inv:
  "explore_loop fetch base_url to_visit visited fetched = (results, fetched') \<Longrightarrow>
   fetched = visited \<Longrightarrow> distinct visited \<Longrightarrow> length visited \<le> max_pages \<Longrightarrow>
   \<forall>u \<in> set visited. parse_of fetch u = None \<Longrightarrow>
     distinct fetched' \<and> length fetched' \<le> max_pages \<and> results = first_match fetch fetched' \<and>
     (\<exists>more. fetched' = fetched @ more)"
proof (induction fetch base_url to_visit visited fetched rule: explore_loop.induct)
  case (1 fetch base_url to_visit visited fetched)
  note run = "1.prems"(1) and eq = "1.prems"(2) and dist = "1.prems"(3)
    and len = "1.prems"(4) and none = "1.prems"(5)
  show ?case
  proof (cases to_visit)
    case Nil
    with run have "results = None" "fetched' = fetched"
      by (simp_all add: explore_loop.simps)
    then show ?thesis using eq dist len none by (simp add: first_match_none)
  next
    case (Cons url rest)
    show ?thesis
    proof (cases "length visited < max_pages")
      case False
      with run Cons have "results = None" "fetched' = fetched"
        by (simp_all add: explore_loop.simps)
      then show ?thesis using eq dist len none by (simp add: first_match_none)
    next
      case budget: True
      show ?thesis
      proof (cases "url \<in> set visited")
        case True
        with run Cons budget
        have "explore_loop fetch base_url rest visited fetched = (results, fetched')"
          by (simp add: explore_loop.simps)
        from "1.IH"(1) [OF Cons _ True this eq dist len none] budget
        show ?thesis by simp
      next
        case fresh: False
        have dist': "distinct (visited @ [url])" using dist fresh by simp
        have len': "length (visited @ [url]) \<le> max_pages" using budget by simp
        have eq': "fetched @ [url] = visited @ [url]" using eq by simp
        show ?thesis
        proof (cases "fetch url")
          case None
          then have p: "parse_of fetch url = None" by (simp add: parse_of_def)
          from run Cons budget fresh None
          have r: "explore_loop fetch base_url rest (visited @ [url]) (fetched @ [url])
                = (results, fetched')"
            by (simp add: explore_loop.simps)
          have none': "\<forall>u \<in> set (visited @ [url]). parse_of fetch u = None"
            using none p by simp
          from "1.IH"(2) [OF Cons _ fresh None r eq' dist' len' none'] budget
          show ?thesis by auto
        next
          case (Some soup)
          show ?thesis
          proof (cases "try_parse_grading_table soup")
            case (Some parsed)
            with run Cons budget fresh \<open>fetch url = Some soup\<close>
            have "results = Some parsed" "fetched' = fetched @ [url]"
              by (simp_all add: explore_loop.simps)
            moreover have "parse_of fetch url = Some parsed"
              using Some \<open>fetch url = Some soup\<close> by (simp add: parse_of_def)
            ultimately show ?thesis
              using eq dist' len' none by (simp add: first_match_snoc)
          next
            case None
            then have p: "parse_of fetch url = None"
              using \<open>fetch url = Some soup\<close> by (simp add: parse_of_def)
            from run Cons budget fresh \<open>fetch url = Some soup\<close> None
            have r: "explore_loop fetch base_url (rest @ likely_links base_url (anchors soup))
                    (visited @ [url]) (fetched @ [url]) = (results, fetched')"
              by (simp add: explore_loop.simps)
            have none': "\<forall>u \<in> set (visited @ [url]). parse_of fetch u = None"
              using none p by simp
            from "1.IH"(3) [OF Cons _ fresh \<open>fetch url = Some soup\<close> None r eq' dist' len' none']
              budget
            show ?thesis by auto
          qed
        qed
      qed
    qed
  qed
qed

text \<open>
  C7. For every homepage and every assignment of pages to URLs, the exploration
  terminates (\<open>explore_loop\<close> is a total function: its termination proof is the measure
  "pages left in the budget, then length of the queue"), fetches at most 5 URLs, fetches
  no URL twice, and returns the Table Interpreter's result for the first fetched page on
  which it succeeds, or nothing when it succeeds on none of the fetched pages.
\<close>

theorem explore_terminates_within_budget:
  "length (snd (find_and_parse_grading fetch homepage_url)) \<le> 5 \<and>
   distinct (snd (find_and_parse_grading fetch homepage_url)) \<and>
   fst (find_and_parse_grading fetch homepage_url) =
     first_match fetch (snd (find_and_parse_grading fetch homepage_url))"
proof -
  obtain results fetched where r: "find_and_parse_grading fetch homepage_url = (results, fetched)"
    by (cases "find_and_parse_grading fetch homepage_url")
  then have "explore_loop fetch (base_url_of homepage_url) [homepage_url] [] [] = (results, fetched)"
    by (simp add: find_and_parse_grading_def)
  from explore_loop_inv [OF this] show ?thesis
    by (simp add: r max_pages_def)
qed

text \<open>On the endless chain the crawl stops after five pages; on the small site it returns
  the table of the second page.\<close>

theorem explore_terminates_within_budget_witness:
  "find_and_parse_grading chain_site ''https://u.in'' = (None, chain_urls) \<and>
   length (snd (find_and_parse_grading chain_site ''https://u.in'')) \<le> 5 \<and>
   distinct (snd (find_and_parse_grading chain_site ''https://u.in'')) \<and>
   find_and_parse_grading small_site ''https://anna.in'' =
     (Some (10, anna_rows), [''https://anna.in'', ''https://anna.in/academics''])"
proof -
  have "find_and_parse_grading chain_site ''https://u.in'' = (None, chain_urls)"
    by code_simp
  moreover have "find_and_parse_grading small_site ''https://anna.in'' =
     (Some (10, anna_rows), [''https://anna.in'', ''https://anna.in/academics''])"
    by code_simp
  ultimately show ?thesis
    using explore_terminates_within_budget [of chain_site "''https://u.in''"] by blast
qed

section \<open>Points and scale\<close>





end
